theory Spec2Isabelle
  imports Main "HOL-Library.AList" "HOL-Library.Word"
begin

section \<open>JavaScript values\<close>

text \<open>
  The player's progress is whatever \<^verbatim>\<open>JSON.parse\<close> returned for the stored
  text, so the embedding keeps it as an untyped JavaScript value. Numbers are
  integers (scores and score changes are integers in the data model); floating
  point is not represented.
\<close>

datatype jsval =
    JUndefined
  | JNull
  | JBool bool
  | JNum int
  | JStr string
  | JArr "jsval list"
  | JObj "(string \<times> jsval) list"

text \<open>
  Exceptions of the source. \<open>Error m\<close> is \<^verbatim>\<open>new Error(m)\<close> or a rejected
  promise whose \<^verbatim>\<open>message\<close> is \<open>m\<close>.
\<close>

datatype error = TypeError | SyntaxError | Error string

text \<open>
  The result of evaluating an expression: a value, an exception, or
  \<open>Unmodelled\<close> where the outcome depends on parts of ECMAScript that the
  embedding leaves out (string-to-number coercion, property keys computed from
  numbers on plain objects, writes to primitives, named properties on arrays).
  No theorem concludes anything from an \<open>Unmodelled\<close> result.
\<close>

datatype 'a res = Ok 'a | Throw error | Unmodelled

text \<open>\<^verbatim>\<open>!!v\<close>: the truthiness of a value.\<close>

fun truthy :: "jsval \<Rightarrow> bool" where
  "truthy JUndefined = False"
| "truthy JNull = False"
| "truthy (JBool b) = b"
| "truthy (JNum n) = (n \<noteq> 0)"
| "truthy (JStr s) = (s \<noteq> [])"
| "truthy (JArr xs) = True"
| "truthy (JObj kvs) = True"

text \<open>
  \<^verbatim>\<open>v.k\<close> for a property name \<open>k\<close> that no built-in prototype defines (the
  program reads \<^verbatim>\<open>scores\<close>, \<^verbatim>\<open>unlocks\<close>, \<^verbatim>\<open>systemPrompt\<close>, \<^verbatim>\<open>history\<close>,
  \<^verbatim>\<open>userMessage\<close>, \<^verbatim>\<open>response\<close> and \<^verbatim>\<open>score_change\<close>): a TypeError on
  \<^verbatim>\<open>undefined\<close> and \<^verbatim>\<open>null\<close>, the own property of an object, \<^verbatim>\<open>undefined\<close>
  on everything else.
\<close>

fun get_prop :: "jsval \<Rightarrow> string \<Rightarrow> error + jsval" where
  "get_prop JUndefined k = Inl TypeError"
| "get_prop JNull k = Inl TypeError"
| "get_prop (JObj kvs) k = Inr (case map_of kvs k of Some v \<Rightarrow> v | None \<Rightarrow> JUndefined)"
| "get_prop v k = Inr JUndefined"

text \<open>\<^verbatim>\<open>v[i]\<close> for a number \<open>i\<close>.\<close>

fun get_index :: "jsval \<Rightarrow> int \<Rightarrow> jsval res" where
  "get_index JUndefined i = Throw TypeError"
| "get_index JNull i = Throw TypeError"
| "get_index (JArr xs) i =
     Ok (if 0 \<le> i \<and> i < int (length xs) then xs ! nat i else JUndefined)"
| "get_index (JStr s) i =
     Ok (if 0 \<le> i \<and> i < int (length s) then JStr [s ! nat i] else JUndefined)"
| "get_index (JBool b) i = Ok JUndefined"
| "get_index (JNum n) i = Ok JUndefined"
| "get_index (JObj kvs) i = Unmodelled"

text \<open>
  \<^verbatim>\<open>v[i] = x\<close>, giving the receiver after the assignment. Writing past the end
  of an array extends it, the gap reading as \<^verbatim>\<open>undefined\<close>. A negative index
  or one beyond $2^{32}-2$ names an ordinary property of the array object.
\<close>

fun set_index :: "jsval \<Rightarrow> int \<Rightarrow> jsval \<Rightarrow> jsval res" where
  "set_index JUndefined i x = Throw TypeError"
| "set_index JNull i x = Throw TypeError"
| "set_index (JArr xs) i x =
     (if 0 \<le> i \<and> i < 4294967295 then
        (if i < int (length xs) then Ok (JArr (xs[nat i := x]))
         else Ok (JArr (xs @ replicate (nat i - length xs) JUndefined @ [x])))
      else Unmodelled)"
| "set_index v i x = Unmodelled"

text \<open>\<^verbatim>\<open>a > v\<close> for a number \<open>a\<close>; \<^verbatim>\<open>undefined\<close> converts to NaN, which compares false.\<close>

fun js_gt :: "int \<Rightarrow> jsval \<Rightarrow> bool res" where
  "js_gt a (JNum n) = Ok (a > n)"
| "js_gt a JUndefined = Ok False"
| "js_gt a JNull = Ok (a > 0)"
| "js_gt a (JBool b) = Ok (a > (if b then 1 else 0))"
| "js_gt a v = Unmodelled"

text \<open>Replacing the value that the property \<open>k\<close> of an object refers to.\<close>

fun put_prop :: "jsval \<Rightarrow> string \<Rightarrow> jsval \<Rightarrow> jsval" where
  "put_prop (JObj kvs) k v = JObj (AList.update k v kvs)"
| "put_prop p k v = p"

text \<open>
  \<^verbatim>\<open>JSON.parse(JSON.stringify(v))\<close> for \<open>v\<close> other than \<^verbatim>\<open>undefined\<close>: an
  \<^verbatim>\<open>undefined\<close> array element is written as \<^verbatim>\<open>null\<close>, an \<^verbatim>\<open>undefined\<close>
  property is left out.
\<close>

fun stringify_parse :: "jsval \<Rightarrow> jsval" where
  "stringify_parse (JArr xs) =
     JArr (map (\<lambda>x. if x = JUndefined then JNull else stringify_parse x) xs)"
| "stringify_parse (JObj kvs) =
     JObj (map (\<lambda>(k, v). (k, stringify_parse v)) (filter (\<lambda>(k, v). v \<noteq> JUndefined) kvs))"
| "stringify_parse v = v"

section \<open>Text\<close>

text \<open>
  What the user types and what the chat log shows is a JavaScript string: a
  sequence of 16-bit code units. \<open>units\<close> gives the code units of a text whose
  characters are all below U+0100, as the literals of the source are.
\<close>

type_synonym jstring = "16 word list"

definition units :: "string \<Rightarrow> jstring" where
  "units s = map (\<lambda>c. of_nat (of_char c)) s"

section \<open>State of the game client\<close>

record level =
  level_id :: int
  title :: string
  briefing :: string
  systemPrompt :: string
  missionLength :: int
  passScore :: int

text \<open>
  An entry of \<^verbatim>\<open>chatHistory\<close>: \<^verbatim>\<open>{role: "user", parts: [{text}]}\<close> or
  \<^verbatim>\<open>{role: "model", parts: [{text: JSON.stringify(aiData)}]}\<close>, the latter kept
  as the value that the text stands for.
\<close>

datatype turn = UserTurn jstring | ModelTurn jsval

datatype sender = FromUser | FromAi | FromSystem

datatype screen = Start | LevelSelect | Game | Debrief

text \<open>
  The text under the key \<^verbatim>\<open>dealersDojoProgress\<close> of \<^verbatim>\<open>localStorage\<close>, up to
  what the program can observe of it: no item (\<^verbatim>\<open>getItem\<close> gives \<^verbatim>\<open>null\<close>),
  the empty string (falsy), a text on which \<^verbatim>\<open>JSON.parse\<close> throws, or a text
  that parses to a value.
\<close>

datatype stored = NoItem | EmptyText | Unparseable | Parses jsval

text \<open>A card of the level grid: its title, class, high-score text and button.\<close>

record card =
  card_title :: string
  card_unlocked :: bool
  card_high_score :: jsval
  card_level_id :: int

record state =
  playerProgress :: jsval
  levelsData :: "level list"
  currentLevel :: "level option"
  chatHistory :: "turn list"
  currentScore :: int
  messageCount :: int
  storage :: stored
  active :: "screen set"
  levelGrid :: "card list"
  chatLog :: "(sender \<times> jstring) list"
  chatInputValue :: jstring
  chatInputDisabled :: bool
  sendButtonDisabled :: bool
  spinnerHidden :: bool
  gameTitle :: string
  scoreDisplay :: int
  messageCountDisplay :: int
  messageTotalDisplay :: int
  debriefTitle :: string
  debriefClass :: string
  debriefMessage :: string
  debriefScore :: int
  alerts :: "string list"

text \<open>
  How a handler ends: it returns, or an exception leaves it with the state as
  it was when thrown, or its behaviour is outside the embedding.
\<close>

datatype outcome = Returned state | Threw error state | OutOfModel

text \<open>The initial value of \<^verbatim>\<open>playerProgress\<close> (lines 3 to 7).\<close>

definition default_progress :: jsval where
  "default_progress =
     JObj [(''unlocks'', JArr [JBool True, JBool False, JBool False]),
           (''scores'', JArr [JNum 0, JNum 0, JNum 0])]"

section \<open>Progress store\<close>

definition saveProgress :: "state \<Rightarrow> state" where
  "saveProgress st =
     st\<lparr>storage :=
          (case playerProgress st of
             JUndefined \<Rightarrow> Unparseable
           | p \<Rightarrow> Parses (stringify_parse p))\<rparr>"

definition loadProgress :: "state \<Rightarrow> outcome" where
  "loadProgress st =
     (case storage st of
        NoItem \<Rightarrow> Returned (saveProgress st)
      | EmptyText \<Rightarrow> Returned (saveProgress st)
      | Unparseable \<Rightarrow> Threw SyntaxError st
      | Parses v \<Rightarrow> Returned (st\<lparr>playerProgress := v\<rparr>))"

section \<open>Screens and displays\<close>

definition showScreen :: "screen \<Rightarrow> state \<Rightarrow> state" where
  "showScreen screenId st = st\<lparr>active := {screenId}\<rparr>"

definition addMessageToLog :: "sender \<Rightarrow> jstring \<Rightarrow> state \<Rightarrow> state" where
  "addMessageToLog sndr text st = st\<lparr>chatLog := chatLog st @ [(sndr, text)]\<rparr>"

definition updateScore :: "int \<Rightarrow> state \<Rightarrow> state" where
  "updateScore change st =
     st\<lparr>currentScore := currentScore st + change,
        scoreDisplay := currentScore st + change\<rparr>"

definition updateMessageCount :: "int \<Rightarrow> state \<Rightarrow> state" where
  "updateMessageCount count st = st\<lparr>messageCount := count, messageCountDisplay := count\<rparr>"

section \<open>Starting a level\<close>

definition startLevel :: "int \<Rightarrow> state \<Rightarrow> state" where
  "startLevel levelId st =
     (let st0 = st\<lparr>currentLevel := find (\<lambda>l. level_id l = levelId) (levelsData st)\<rparr>
      in case currentLevel st0 of
           None \<Rightarrow> st0
         | Some lvl \<Rightarrow>
             showScreen Game
               (addMessageToLog FromSystem (units (briefing lvl))
                 ((updateMessageCount 0
                    (updateScore 0
                      (st0\<lparr>currentScore := 0, messageCount := 0, chatHistory := [],
                           chatLog := [], gameTitle := title lvl\<rparr>)))
                  \<lparr>messageTotalDisplay := missionLength lvl\<rparr>)))"

section \<open>A chat turn\<close>

text \<open>
  \<^verbatim>\<open>String.prototype.trim\<close> removes the leading and trailing code units that
  are white space or line terminators: tab, line feed, vertical tab, form feed,
  carriage return, space, no-break space, the byte order mark, and the space
  separators of Unicode (U+1680, U+2000 to U+200A, U+202F, U+205F, U+3000) with
  the line and paragraph separators (U+2028, U+2029).
\<close>

definition is_space :: "16 word \<Rightarrow> bool" where
  "is_space c =
     (c \<in> set [0x0009, 0x000A, 0x000B, 0x000C, 0x000D, 0x0020, 0x00A0, 0x1680,
               0x2000, 0x2001, 0x2002, 0x2003, 0x2004, 0x2005, 0x2006, 0x2007,
               0x2008, 0x2009, 0x200A, 0x2028, 0x2029, 0x202F, 0x205F, 0x3000,
               0xFEFF])"

definition trim :: "jstring \<Rightarrow> jstring" where
  "trim s = rev (dropWhile is_space (rev (dropWhile is_space s)))"

text \<open>The body posted to \<^verbatim>\<open>/api/chat\<close> (lines 183 to 187).\<close>

record chat_request =
  req_systemPrompt :: string
  req_history :: "turn list"
  req_userMessage :: jstring

text \<open>
  What the client sees of the round trip (lines 180 to 195). \<open>FetchFailed m\<close>:
  \<^verbatim>\<open>fetch\<close> or \<^verbatim>\<open>response.json()\<close> rejects, or line 192 throws on a body that
  is \<^verbatim>\<open>null\<close>, with message \<open>m\<close>. \<open>HttpError e\<close>: the response is not \<^verbatim>\<open>ok\<close>
  and \<^verbatim>\<open>err.error\<close> is falsy (\<open>None\<close>) or is truthy and reads as the text \<open>m\<close>
  (\<open>Some m\<close>). \<open>HttpOk v\<close>: the response is \<^verbatim>\<open>ok\<close> and its body parses to the
  JSON value \<open>v\<close> (so never \<^verbatim>\<open>undefined\<close>), whatever its shape.
\<close>

datatype relay_outcome = FetchFailed jstring | HttpError "jstring option" | HttpOk jsval

text \<open>
  The messages of the TypeErrors raised by \<^verbatim>\<open>currentLevel.systemPrompt\<close> when
  no level is current and by \<^verbatim>\<open>aiData.response\<close> when the reply is \<^verbatim>\<open>null\<close>;
  the wording is the engine's.
\<close>

definition no_level_message :: jstring where
  "no_level_message = units ''Cannot read properties of null (reading systemPrompt)''"

definition null_reply_message :: jstring where
  "null_reply_message = units ''Cannot read properties of null (reading response)''"

text \<open>The catch block (lines 210 to 215).\<close>

definition chat_catch :: "jstring \<Rightarrow> state \<Rightarrow> state" where
  "chat_catch msg st =
     addMessageToLog FromSystem (units ''Error: Could not get response from AI. '' @ msg) st"

text \<open>
  \<^verbatim>\<open>currentScore += v\<close> for a score that is an integer: the integer added, where
  the sum is again a number. With \<^verbatim>\<open>undefined\<close> the sum is NaN, with a string,
  an array or an object it is a string.
\<close>

fun increment :: "jsval \<Rightarrow> int option" where
  "increment (JNum n) = Some n"
| "increment JNull = Some 0"
| "increment (JBool b) = Some (if b then 1 else 0)"
| "increment v = None"

text \<open>
  Lines 197 to 209, after the user's entry has been pushed: the reply's text
  goes to the log, its score change to the score, the reply to the history.
  Reading \<^verbatim>\<open>aiData.response\<close> throws when the reply is \<^verbatim>\<open>null\<close>. The result
  is \<open>None\<close> where the text is not a string or the new score not an integer,
  which the embedding leaves out.
\<close>

definition use_reply :: "jsval \<Rightarrow> state \<Rightarrow> state option" where
  "use_reply aiData st =
     (case get_prop aiData ''response'' of
        Inl e \<Rightarrow> Some (chat_catch null_reply_message st)
      | Inr (JStr text) \<Rightarrow>
          (case get_prop aiData ''score_change'' of
             Inl e \<Rightarrow> Some (chat_catch null_reply_message (addMessageToLog FromAi (units text) st))
           | Inr change \<Rightarrow>
               (case increment change of
                  None \<Rightarrow> None
                | Some n \<Rightarrow>
                    (let st2 = updateScore n (addMessageToLog FromAi (units text) st)
                     in Some (st2\<lparr>chatHistory := chatHistory st2 @ [ModelTurn aiData]\<rparr>))))
      | Inr v \<Rightarrow> None)"

text \<open>The try block with its catch (lines 178 to 215).\<close>

definition chat_try ::
  "(chat_request \<Rightarrow> relay_outcome) \<Rightarrow> jstring \<Rightarrow> state \<Rightarrow> state option" where
  "chat_try fetch userMessage st =
     (case currentLevel st of
        None \<Rightarrow> Some (chat_catch no_level_message st)
      | Some lvl \<Rightarrow>
          (case fetch \<lparr>req_systemPrompt = systemPrompt lvl,
                       req_history = chatHistory st,
                       req_userMessage = userMessage\<rparr> of
             FetchFailed m \<Rightarrow> Some (chat_catch m st)
           | HttpError e \<Rightarrow>
               Some (chat_catch (case e of None \<Rightarrow> units ''Server error'' | Some m \<Rightarrow> m) st)
           | HttpOk aiData \<Rightarrow>
               use_reply aiData (st\<lparr>chatHistory := chatHistory st @ [UserTurn userMessage]\<rparr>)))"

text \<open>
  Lines 167 to 223 for a message that is not blank: the user's entry, the
  count, the disabled input, the exchange, and the finally block.
\<close>

definition turn_attempt ::
  "(chat_request \<Rightarrow> relay_outcome) \<Rightarrow> jstring \<Rightarrow> state \<Rightarrow> state option" where
  "turn_attempt fetch userMessage st =
     (let st1 = (addMessageToLog FromUser userMessage st)\<lparr>chatInputValue := []\<rparr>;
          st2 = updateMessageCount (messageCount st1 + 1) st1;
          st3 = st2\<lparr>chatInputDisabled := True, sendButtonDisabled := True,
                    spinnerHidden := False\<rparr>
      in case chat_try fetch userMessage st3 of
           None \<Rightarrow> None
         | Some st4 \<Rightarrow>
             Some (st4\<lparr>chatInputDisabled := False, sendButtonDisabled := False,
                       spinnerHidden := True\<rparr>))"

section \<open>Mission resolution\<close>

text \<open>\<^verbatim>\<open>playerProgress.f[i]\<close> and \<^verbatim>\<open>playerProgress.f[i] = x\<close>.\<close>

definition read_progress :: "jsval \<Rightarrow> string \<Rightarrow> int \<Rightarrow> jsval res" where
  "read_progress p f i =
     (case get_prop p f of
        Inl e \<Rightarrow> Throw e
      | Inr a \<Rightarrow> get_index a i)"

definition write_progress :: "jsval \<Rightarrow> string \<Rightarrow> int \<Rightarrow> jsval \<Rightarrow> jsval res" where
  "write_progress p f i x =
     (case get_prop p f of
        Inl e \<Rightarrow> Throw e
      | Inr a \<Rightarrow>
          (case set_index a i x of
             Ok a' \<Rightarrow> Ok (put_prop p f a')
           | Throw e \<Rightarrow> Throw e
           | Unmodelled \<Rightarrow> Unmodelled))"

text \<open>Lines 296 to 298.\<close>

definition mission_finish :: "state \<Rightarrow> outcome" where
  "mission_finish st =
     Returned (showScreen Debrief (saveProgress (st\<lparr>debriefScore := currentScore st\<rparr>)))"

text \<open>Lines 280 to 288, inside the pass branch.\<close>

definition unlock_next :: "int \<Rightarrow> state \<Rightarrow> outcome" where
  "unlock_next nextLevelIndex st =
     (if nextLevelIndex < int (length (levelsData st)) then
        (case read_progress (playerProgress st) ''unlocks'' nextLevelIndex of
           Throw e \<Rightarrow> Threw e st
         | Unmodelled \<Rightarrow> OutOfModel
         | Ok u \<Rightarrow>
             if \<not> truthy u then
               (case write_progress (playerProgress st) ''unlocks'' nextLevelIndex (JBool True) of
                  Throw e \<Rightarrow> Threw e st
                | Unmodelled \<Rightarrow> OutOfModel
                | Ok p \<Rightarrow>
                    mission_finish
                      (st\<lparr>playerProgress := p,
                          debriefMessage :=
                            debriefMessage st @ '' A new assignment is now available.''\<rparr>))
             else mission_finish st)
      else mission_finish st)"

text \<open>Lines 269 to 272.\<close>

definition update_high_score :: "int \<Rightarrow> state \<Rightarrow> outcome" where
  "update_high_score levelIndex st =
     (case read_progress (playerProgress st) ''scores'' levelIndex of
        Throw e \<Rightarrow> Threw e st
      | Unmodelled \<Rightarrow> OutOfModel
      | Ok old \<Rightarrow>
          (case js_gt (currentScore st) old of
             Throw e \<Rightarrow> Threw e st
           | Unmodelled \<Rightarrow> OutOfModel
           | Ok False \<Rightarrow> Returned st
           | Ok True \<Rightarrow>
               (case write_progress (playerProgress st) ''scores'' levelIndex
                       (JNum (currentScore st)) of
                  Throw e \<Rightarrow> Threw e st
                | Unmodelled \<Rightarrow> OutOfModel
                | Ok p \<Rightarrow> Returned (st\<lparr>playerProgress := p\<rparr>))))"

text \<open>Lines 275 to 278 and lines 290 to 293: the texts of the debrief screen.\<close>

definition show_passed :: "state \<Rightarrow> state" where
  "show_passed st =
     st\<lparr>debriefTitle := ''Mission Successful'',
        debriefClass := ''pass'',
        debriefMessage := ''Excellent work, Agent. You met the objective.''\<rparr>"

definition show_failed :: "state \<Rightarrow> state" where
  "show_failed st =
     st\<lparr>debriefTitle := ''Mission Failed'',
        debriefClass := ''fail'',
        debriefMessage := ''Target lost. Report for reassessment. We will try this again.''\<rparr>"

definition endMission :: "state \<Rightarrow> outcome" where
  "endMission st =
     (case currentLevel st of
        None \<Rightarrow> Threw TypeError st
      | Some lvl \<Rightarrow>
          (let levelIndex = level_id lvl - 1;
               pass = (currentScore st \<ge> passScore lvl)
           in case update_high_score levelIndex st of
                Threw e st' \<Rightarrow> Threw e st'
              | OutOfModel \<Rightarrow> OutOfModel
              | Returned st1 \<Rightarrow>
                  if pass then unlock_next (levelIndex + 1) (show_passed st1)
                  else mission_finish (show_failed st1)))"

definition handleChatSubmit :: "(chat_request \<Rightarrow> relay_outcome) \<Rightarrow> state \<Rightarrow> outcome" where
  "handleChatSubmit fetch st =
     (let userMessage = trim (chatInputValue st)
      in if userMessage = [] then Returned st
         else
           (case turn_attempt fetch userMessage st of
              None \<Rightarrow> OutOfModel
            | Some st' \<Rightarrow>
                (case currentLevel st' of
                   None \<Rightarrow> Threw TypeError st'
                 | Some lvl \<Rightarrow>
                     if messageCount st' \<ge> missionLength lvl then endMission st'
                     else Returned st')))"

section \<open>Level select and start-up\<close>

text \<open>
  The loop of \<^verbatim>\<open>renderLevelSelect\<close> (lines 104 to 120): each round reads the
  unlock flag, then the high score for the card's text, then appends the card.
\<close>

fun render_cards :: "int \<Rightarrow> level list \<Rightarrow> state \<Rightarrow> outcome" where
  "render_cards index [] st = Returned st"
| "render_cards index (lvl # rest) st =
     (case read_progress (playerProgress st) ''unlocks'' index of
        Throw e \<Rightarrow> Threw e st
      | Unmodelled \<Rightarrow> OutOfModel
      | Ok isUnlocked \<Rightarrow>
          (case read_progress (playerProgress st) ''scores'' index of
             Throw e \<Rightarrow> Threw e st
           | Unmodelled \<Rightarrow> OutOfModel
           | Ok high \<Rightarrow>
               render_cards (index + 1) rest
                 (st\<lparr>levelGrid := levelGrid st @
                       [\<lparr>card_title = title lvl,
                         card_unlocked = truthy isUnlocked,
                         card_high_score = (if truthy high then high else JNum 0),
                         card_level_id = level_id lvl\<rparr>]\<rparr>)))"

definition renderLevelSelect :: "state \<Rightarrow> outcome" where
  "renderLevelSelect st = render_cards 0 (levelsData st) (st\<lparr>levelGrid := []\<rparr>)"

definition returnToLevels :: "state \<Rightarrow> outcome" where
  "returnToLevels st =
     (case renderLevelSelect st of
        Returned st' \<Rightarrow> Returned (showScreen LevelSelect st')
      | Threw e st' \<Rightarrow> Threw e st'
      | OutOfModel \<Rightarrow> OutOfModel)"

text \<open>
  What fetching \<^verbatim>\<open>./levels.json\<close> gives: the catalogue, or a failure (the
  request rejects, the response is not \<^verbatim>\<open>ok\<close>, or its body is not JSON).
\<close>

datatype levels_fetch = LevelsFailed | LevelsOk "level list"

definition fatal_alert :: "state \<Rightarrow> state" where
  "fatal_alert st =
     st\<lparr>alerts := alerts st @
          [''FATAL ERROR: Could not load game data (levels.json). Check console.'']\<rparr>"

text \<open>
  \<^verbatim>\<open>init\<close> (lines 49 to 63). The call of \<^verbatim>\<open>loadProgress\<close> stands before the
  \<^verbatim>\<open>try\<close>, so what it throws leaves \<^verbatim>\<open>init\<close>.
\<close>

definition init :: "levels_fetch \<Rightarrow> state \<Rightarrow> outcome" where
  "init lf st =
     (case loadProgress st of
        Threw e st' \<Rightarrow> Threw e st'
      | OutOfModel \<Rightarrow> OutOfModel
      | Returned st1 \<Rightarrow>
          (case lf of
             LevelsFailed \<Rightarrow> Returned (fatal_alert st1)
           | LevelsOk ls \<Rightarrow>
               (case renderLevelSelect (st1\<lparr>levelsData := ls\<rparr>) of
                  Returned st2 \<Rightarrow> Returned (showScreen Start st2)
                | Threw e st2 \<Rightarrow> Returned (fatal_alert st2)
                | OutOfModel \<Rightarrow> OutOfModel)))"

section \<open>Operations of the client\<close>

datatype operation =
    StartLevel int
  | SubmitTurn jstring "chat_request \<Rightarrow> relay_outcome"
  | MissionResolution
  | Save
  | Load

fun perform :: "operation \<Rightarrow> state \<Rightarrow> outcome" where
  "perform (StartLevel levelId) st = Returned (startLevel levelId st)"
| "perform (SubmitTurn text fetch) st = handleChatSubmit fetch (st\<lparr>chatInputValue := text\<rparr>)"
| "perform MissionResolution st = endMission st"
| "perform Save st = Returned (saveProgress st)"
| "perform Load st = loadProgress st"

text \<open>The expression \<^verbatim>\<open>playerProgress.unlocks[i] === true\<close>.\<close>

definition unlocked :: "state \<Rightarrow> int \<Rightarrow> bool" where
  "unlocked st i = (read_progress (playerProgress st) ''unlocks'' i = Ok (JBool True))"



text \<open>The state in which a handler leaves the program, returning or throwing.\<close>

definition ends :: "outcome \<Rightarrow> state \<Rightarrow> bool" where
  "ends out s' = (out = Returned s' \<or> (\<exists>e. out = Threw e s'))"

text \<open>
  The progress record has an array of unlock flags and an array of scores, the
  level's id is a position of the scores, and the score there is a number.
\<close>

definition progress_ready :: "state \<Rightarrow> level \<Rightarrow> bool" where
  "progress_ready s lvl =
     (case get_prop (playerProgress s) ''unlocks'' of
        Inr (JArr us) \<Rightarrow>
          (case get_prop (playerProgress s) ''scores'' of
             Inr (JArr ss) \<Rightarrow>
               1 \<le> level_id lvl \<and> level_id lvl \<le> int (length ss)
               \<and> level_id lvl < 4294967295
               \<and> (case ss ! nat (level_id lvl - 1) of JNum n \<Rightarrow> True | _ \<Rightarrow> False)
           | _ \<Rightarrow> False)
      | _ \<Rightarrow> False)"

text \<open>The part of the state that belongs to the running session and its input.\<close>

definition same_session :: "state \<Rightarrow> state \<Rightarrow> bool" where
  "same_session s s' =
     (chatHistory s' = chatHistory s \<and> currentScore s' = currentScore s
      \<and> messageCount s' = messageCount s \<and> currentLevel s' = currentLevel s
      \<and> levelsData s' = levelsData s \<and> chatLog s' = chatLog s
      \<and> chatInputValue s' = chatInputValue s
      \<and> chatInputDisabled s' = chatInputDisabled s
      \<and> sendButtonDisabled s' = sendButtonDisabled s
      \<and> spinnerHidden s' = spinnerHidden s)"

section \<open>The relay handler\<close>

record request =
  http_method :: string
  http_body :: jsval

text \<open>What \<^verbatim>\<open>res.status(n).json(v)\<close> sends, or the exception that leaves the handler.\<close>

datatype handled = Responded nat jsval | Crashed error

text \<open>
  The external model, called with the full history (lines 82 to 92): the call
  throws with a message, or the reply text is not JSON (\<^verbatim>\<open>JSON.parse\<close> throws
  with a message), or it parses to a value.
\<close>

datatype model_result = CallFails string | ReplyNotJson string | ReplyJson jsval

text \<open>\<^verbatim>\<open>...history\<close> inside an array literal.\<close>

fun spread :: "jsval \<Rightarrow> error + jsval list" where
  "spread (JArr xs) = Inr xs"
| "spread (JStr s) = Inr (map (\<lambda>c. JStr [c]) s)"
| "spread v = Inl TypeError"

definition user_entry :: "jsval \<Rightarrow> jsval" where
  "user_entry text =
     JObj [(''role'', JStr ''user''), (''parts'', JArr [JObj [(''text'', text)]])]"

definition priming_entry :: jsval where
  \<open>priming_entry =
     JObj [(''role'', JStr ''model''),
           (''parts'', JArr [JObj [(''text'',
              JStr ''{"response": "Understood. I am ready to begin the simulation.", "score_change": 0}'')]])]\<close>

definition error_body :: "string \<Rightarrow> jsval" where
  "error_body msg = JObj [(''error'', JStr msg)]"

definition failure_body :: "string \<Rightarrow> jsval" where
  "failure_body details =
     JObj [(''error'', JStr ''Failed to fetch AI response.''), (''details'', JStr details)]"

text \<open>
  \<^verbatim>\<open>handler\<close> (lines 12 to 100), given the value of \<^verbatim>\<open>GEMINI_API_KEY\<close> and
  the external model. The second component lists the histories with which the
  external model was called.
\<close>

definition handler ::
  "string option \<Rightarrow> (jsval list \<Rightarrow> model_result) \<Rightarrow> request \<Rightarrow> handled \<times> jsval list list" where
  "handler API_KEY model req =
     (if API_KEY = None \<or> API_KEY = Some [] then
        (Responded 500 (error_body ''API key not configured.''), [])
      else if http_method req \<noteq> ''POST'' then
        (Responded 405 (error_body ''Method Not Allowed''), [])
      else
        (case get_prop (http_body req) ''systemPrompt'' of
           Inl e \<Rightarrow> (Crashed e, [])
         | Inr systemPrompt' \<Rightarrow>
        (case get_prop (http_body req) ''history'' of
           Inl e \<Rightarrow> (Crashed e, [])
         | Inr history \<Rightarrow>
        (case get_prop (http_body req) ''userMessage'' of
           Inl e \<Rightarrow> (Crashed e, [])
         | Inr userMessage \<Rightarrow>
             if \<not> truthy systemPrompt' \<or> \<not> truthy history \<or> \<not> truthy userMessage then
               (Responded 400 (error_body ''Missing required fields.''), [])
             else
               (case spread history of
                  Inl e \<Rightarrow> (Crashed e, [])
                | Inr entries \<Rightarrow>
                    (let fullHistory =
                           [user_entry systemPrompt', priming_entry] @ entries
                           @ [user_entry userMessage]
                     in case model fullHistory of
                          CallFails m \<Rightarrow> (Responded 500 (failure_body m), [fullHistory])
                        | ReplyNotJson m \<Rightarrow> (Responded 500 (failure_body m), [fullHistory])
                        | ReplyJson v \<Rightarrow> (Responded 200 v, [fullHistory])))))))"

section \<open>Sample inputs\<close>

text \<open>
  The state in which the script starts, before \<^verbatim>\<open>init\<close> runs, for a given
  content of the storage. The page is not part of the sources: the displays are
  taken empty and no screen active.
\<close>

definition initial_state :: "stored \<Rightarrow> state" where
  "initial_state s =
     \<lparr>playerProgress = default_progress, levelsData = [], currentLevel = None,
      chatHistory = [], currentScore = 0, messageCount = 0, storage = s,
      active = {}, levelGrid = [], chatLog = [], chatInputValue = [],
      chatInputDisabled = False, sendButtonDisabled = False, spinnerHidden = True,
      gameTitle = [], scoreDisplay = 0, messageCountDisplay = 0, messageTotalDisplay = 0,
      debriefTitle = [], debriefClass = [], debriefMessage = [], debriefScore = 0,
      alerts = []\<rparr>"

definition sample_level1 :: level where
  "sample_level1 =
     \<lparr>level_id = 1, title = ''The Informant'', briefing = ''Gain her trust.'',
      systemPrompt = ''You are an informant.'', missionLength = 3, passScore = 10\<rparr>"

definition sample_level2 :: level where
  "sample_level2 =
     \<lparr>level_id = 2, title = ''The Broker'', briefing = ''Close the deal.'',
      systemPrompt = ''You are a broker.'', missionLength = 2, passScore = 5\<rparr>"

text \<open>
  A session on the first level of a two-level catalogue, with the given score
  and message count, and a message typed into the input.
\<close>

definition sample_game :: "int \<Rightarrow> int \<Rightarrow> state" where
  "sample_game score count =
     (initial_state (Parses default_progress))
       \<lparr>levelsData := [sample_level1, sample_level2],
        currentLevel := Some sample_level1,
        currentScore := score, messageCount := count,
        chatInputValue := units ''  hello '', active := {Game}\<rparr>"

text \<open>
  Round trips: the relay answers with status 500, the network is down, the
  reply is \<^verbatim>\<open>null\<close>, the reply has the shape of the contract.
\<close>

definition failing_fetch :: "chat_request \<Rightarrow> relay_outcome" where
  "failing_fetch r = HttpError (Some (units ''Failed to fetch AI response.''))"

definition offline_fetch :: "chat_request \<Rightarrow> relay_outcome" where
  "offline_fetch r = FetchFailed (units ''Failed to fetch'')"

definition null_fetch :: "chat_request \<Rightarrow> relay_outcome" where
  "null_fetch r = HttpOk JNull"

definition good_fetch :: "chat_request \<Rightarrow> relay_outcome" where
  "good_fetch r = HttpOk (JObj [(''response'', JStr ''Go on.''), (''score_change'', JNum 4)])"

text \<open>
  Sessions on the last turn of the first level whose progress record was
  loaded from a stored text without scores.
\<close>

definition scoreless_record :: jsval where
  "scoreless_record = JObj [(''unlocks'', JArr [JBool True, JBool False, JBool False])]"

definition stuck_game :: state where
  "stuck_game = (sample_game 0 2)\<lparr>playerProgress := JObj [(''unlocks'', JArr [JBool False])]\<rparr>"

definition scoreless_game :: state where
  "scoreless_game = (sample_game 4 2)\<lparr>playerProgress := scoreless_record\<rparr>"

text \<open>A stored record with the first level locked and no scores.\<close>

definition locked_record :: jsval where
  "locked_record = JObj [(''unlocks'', JArr [JBool False])]"

text \<open>A stored record whose first high score is 15.\<close>

definition high_record :: jsval where
  "high_record =
     JObj [(''unlocks'', JArr [JBool True, JBool False, JBool False]),
           (''scores'', JArr [JNum 15, JNum 0, JNum 0])]"

text \<open>Requests to the relay, and an external model whose call fails.\<close>

definition sample_get :: request where
  "sample_get = \<lparr>http_method = ''GET'', http_body = JUndefined\<rparr>"

definition sample_post :: request where
  "sample_post =
     \<lparr>http_method = ''POST'',
      http_body = JObj [(''systemPrompt'', JStr ''You are an informant.''),
                        (''history'', JArr []),
                        (''userMessage'', JStr ''hello'')]\<rparr>"

definition sample_post_blank :: request where
  "sample_post_blank =
     \<lparr>http_method = ''POST'',
      http_body = JObj [(''systemPrompt'', JStr ''You are an informant.''),
                        (''history'', JArr [])]\<rparr>"

definition failing_model :: "jsval list \<Rightarrow> model_result" where
  "failing_model h = CallFails ''quota exceeded''"

section \<open>Evaluating the samples\<close>

lemmas sample_defs = sample_game_def initial_state_def sample_level1_def sample_level2_def
  default_progress_def failing_fetch_def offline_fetch_def null_fetch_def good_fetch_def
  high_record_def locked_record_def scoreless_record_def stuck_game_def scoreless_game_def

lemmas run_defs = handleChatSubmit_def turn_attempt_def chat_try_def use_reply_def
  chat_catch_def endMission_def update_high_score_def unlock_next_def mission_finish_def
  show_passed_def show_failed_def read_progress_def write_progress_def saveProgress_def
  showScreen_def addMessageToLog_def updateScore_def updateMessageCount_def trim_def
  is_space_def units_def Let_def


section \<open>The progress store\<close>

text \<open>
  Claim C10. \<^verbatim>\<open>loadProgress\<close> does not validate a record that parses: the
  parsed value replaces \<^verbatim>\<open>playerProgress\<close> as it is, and nothing else of the
  state changes. The witness loads a record whose first level is locked, that
  has no scores, and whose array has one entry for a default of three.
\<close>

theorem load_replaces_progress:
  "storage st = Parses v \<Longrightarrow> loadProgress st = Returned (st\<lparr>playerProgress := v\<rparr>)"
  by (simp add: loadProgress_def)

theorem load_replaces_progress_witness:
  "storage (initial_state (Parses locked_record)) = Parses locked_record
   \<and> loadProgress (initial_state (Parses locked_record))
       = Returned ((initial_state (Parses locked_record))\<lparr>playerProgress := locked_record\<rparr>)
   \<and> read_progress locked_record ''unlocks'' 0 = Ok (JBool False)
   \<and> get_prop locked_record ''scores'' = Inr JUndefined"
  using load_replaces_progress [of "initial_state (Parses locked_record)" locked_record]
  by (simp add: initial_state_def locked_record_def read_progress_def)

text \<open>
  Claim C2, as stated, fails: with a stored text that does not parse,
  \<^verbatim>\<open>loadProgress\<close> throws the SyntaxError of \<^verbatim>\<open>JSON.parse\<close>, and \<^verbatim>\<open>init\<close>, which
  calls it outside its \<^verbatim>\<open>try\<close>, throws it on.
\<close>

theorem load_corrupt_counterexample:
  "storage (initial_state Unparseable) = Unparseable
   \<and> loadProgress (initial_state Unparseable) = Threw SyntaxError (initial_state Unparseable)
   \<and> init (LevelsOk [sample_level1]) (initial_state Unparseable)
       = Threw SyntaxError (initial_state Unparseable)"
  by (simp add: loadProgress_def init_def initial_state_def)

text \<open>
  Claim C2, amended. For every state whose stored text does not parse,
  \<^verbatim>\<open>loadProgress\<close> throws a SyntaxError and leaves the state as it was (the
  progress in memory, the built-in default at start-up, and the stored text),
  and \<^verbatim>\<open>init\<close> ends with the same exception whatever the catalogue fetch would
  give.
\<close>

theorem load_corrupt_throws:
  "storage st = Unparseable \<Longrightarrow>
     loadProgress st = Threw SyntaxError st \<and> init lf st = Threw SyntaxError st"
  by (simp add: loadProgress_def init_def)

theorem load_corrupt_throws_witness:
  "storage (initial_state Unparseable) = Unparseable
   \<and> loadProgress (initial_state Unparseable) = Threw SyntaxError (initial_state Unparseable)
   \<and> init LevelsFailed (initial_state Unparseable) = Threw SyntaxError (initial_state Unparseable)
   \<and> playerProgress (initial_state Unparseable) = default_progress"
  using load_corrupt_throws [of "initial_state Unparseable" LevelsFailed]
  by (simp add: initial_state_def)

section \<open>Reading and writing the progress record\<close>

lemma set_index_Ok_arr:
  "set_index a i x = Ok a' \<Longrightarrow>
     \<exists>xs. a = JArr xs \<and> 0 \<le> i \<and>
       a' = JArr (if i < int (length xs) then xs[nat i := x]
                  else xs @ replicate (nat i - length xs) JUndefined @ [x])"
  by (cases a) (auto split: if_splits)

lemma get_prop_arr:
  "get_prop p f = Inr (JArr xs) \<Longrightarrow> \<exists>kvs. p = JObj kvs \<and> map_of kvs f = Some (JArr xs)"
  by (cases p) (auto split: option.splits)

lemma get_index_set_index:
  "set_index a i x = Ok a' \<Longrightarrow> get_index a' j = (if j = i then Ok x else get_index a j)"
proof -
  assume h: "set_index a i x = Ok a'"
  then obtain xs where a: "a = JArr xs" and i: "0 \<le> i"
    and a': "a' = JArr (if i < int (length xs) then xs[nat i := x]
                  else xs @ replicate (nat i - length xs) JUndefined @ [x])"
    using set_index_Ok_arr by blast
  show ?thesis
  proof (cases "i < int (length xs)")
    case True
    with a a' i show ?thesis by (auto simp add: nth_list_update)
  next
    case False
    with a a' i show ?thesis
      by (auto simp add: nth_append)
  qed
qed

lemma read_after_write_same:
  "write_progress p f i x = Ok p' \<Longrightarrow>
     read_progress p' f j = (if j = i then Ok x else read_progress p f j)"
proof -
  assume h: "write_progress p f i x = Ok p'"
  then obtain a a' where ga: "get_prop p f = Inr a" and sa: "set_index a i x = Ok a'"
    and p': "p' = put_prop p f a'"
    by (auto simp add: write_progress_def split: sum.splits res.splits)
  from sa obtain xs where a: "a = JArr xs" using set_index_Ok_arr by blast
  with ga obtain kvs where p: "p = JObj kvs" using get_prop_arr by blast
  have "get_prop p' f = Inr a'" using p p' by (simp add: update_conv')
  then show ?thesis using ga get_index_set_index [OF sa, of j]
    by (simp add: read_progress_def)
qed

lemma read_after_write_other:
  "write_progress p f i x = Ok p' \<Longrightarrow> g \<noteq> f \<Longrightarrow> read_progress p' g j = read_progress p g j"
proof -
  assume h: "write_progress p f i x = Ok p'" and ne: "g \<noteq> f"
  then obtain a' where p': "p' = put_prop p f a'"
    by (auto simp add: write_progress_def split: sum.splits res.splits)
  have "get_prop p' g = get_prop p g" using p' ne by (cases p) (simp_all add: update_conv')
  then show ?thesis by (simp add: read_progress_def)
qed

lemma get_index_throws: "get_index a i = Throw e \<Longrightarrow> e = TypeError"
  by (cases a) auto

lemma get_prop_throws: "get_prop p f = Inl e \<Longrightarrow> e = TypeError"
  by (cases p) auto

lemma set_index_throws: "set_index a i x = Throw e \<Longrightarrow> e = TypeError"
  by (cases a) (auto split: if_splits)

lemma read_progress_throws: "read_progress p f i = Throw e \<Longrightarrow> e = TypeError"
  by (auto simp add: read_progress_def split: sum.splits dest: get_index_throws get_prop_throws)

lemma write_progress_throws: "write_progress p f i x = Throw e \<Longrightarrow> e = TypeError"
  by (auto simp add: write_progress_def split: sum.splits res.splits
      dest: set_index_throws get_prop_throws)

lemma js_gt_throws: "js_gt a v \<noteq> Throw e"
  by (cases v) auto


lemma update_high_score_Returned:
  "update_high_score i s = Returned s' \<Longrightarrow>
     \<exists>old. read_progress (playerProgress s) ''scores'' i = Ok old \<and>
       ((js_gt (currentScore s) old = Ok False \<and> s' = s) \<or>
        (js_gt (currentScore s) old = Ok True \<and>
         (\<exists>p. write_progress (playerProgress s) ''scores'' i (JNum (currentScore s)) = Ok p
              \<and> s' = s\<lparr>playerProgress := p\<rparr>)))"
  by (auto simp add: update_high_score_def split: res.splits bool.splits)

lemma update_high_score_Threw:
  "update_high_score i s = Threw e s' \<Longrightarrow> s' = s \<and> e = TypeError"
  by (auto simp add: update_high_score_def split: res.splits bool.splits
      dest: read_progress_throws write_progress_throws simp: js_gt_throws)

lemma unlock_next_Returned:
  "unlock_next n s = Returned s' \<Longrightarrow>
     mission_finish s = Returned s' \<or>
     (\<exists>u p. n < int (length (levelsData s))
        \<and> read_progress (playerProgress s) ''unlocks'' n = Ok u \<and> \<not> truthy u
        \<and> write_progress (playerProgress s) ''unlocks'' n (JBool True) = Ok p
        \<and> mission_finish
             (s\<lparr>playerProgress := p,
                debriefMessage := debriefMessage s @ '' A new assignment is now available.''\<rparr>)
           = Returned s')"
  by (auto simp add: unlock_next_def split: res.splits if_splits)

lemma unlock_next_Threw:
  "unlock_next n s = Threw e s' \<Longrightarrow> s' = s \<and> e = TypeError"
  by (auto simp add: unlock_next_def mission_finish_def split: res.splits if_splits
      dest: read_progress_throws write_progress_throws)



lemma mission_finish_frame:
  "mission_finish s = Returned s' \<Longrightarrow>
     playerProgress s' = playerProgress s \<and> same_session s s'
     \<and> debriefTitle s' = debriefTitle s \<and> debriefClass s' = debriefClass s
     \<and> active s' = {Debrief}"
  by (auto simp add: mission_finish_def showScreen_def saveProgress_def same_session_def)

lemma mission_finish_not_Threw: "mission_finish s \<noteq> Threw e s'"
  by (simp add: mission_finish_def)

lemma endMission_split:
  assumes "currentLevel s = Some lvl"
    and "endMission s = Returned s' \<or> endMission s = Threw e s'"
  shows "update_high_score (level_id lvl - 1) s = Threw e s' \<and> endMission s = Threw e s'
     \<or> (\<exists>s1. update_high_score (level_id lvl - 1) s = Returned s1
            \<and> passScore lvl \<le> currentScore s
            \<and> unlock_next (level_id lvl) (show_passed s1) = endMission s)
     \<or> (\<exists>s1. update_high_score (level_id lvl - 1) s = Returned s1
            \<and> currentScore s < passScore lvl
            \<and> mission_finish (show_failed s1) = endMission s)"
  using assms by (auto simp add: endMission_def Let_def split: outcome.splits)

section \<open>What a mission end changes\<close>



lemma same_session_progress: "same_session s (s\<lparr>playerProgress := p\<rparr>)"
  by (simp add: same_session_def)




lemma mission_finish_session:
  "mission_finish s = Returned s' \<Longrightarrow>
     same_session s s' \<and> debriefTitle s' = debriefTitle s \<and> debriefClass s' = debriefClass s"
  using mission_finish_frame [of s s'] by simp

lemma unlock_next_frame:
  assumes "unlock_next n s = Returned s' \<or> unlock_next n s = Threw e s'"
  shows "same_session s s' \<and> debriefTitle s' = debriefTitle s \<and> debriefClass s' = debriefClass s"
  using assms
proof
  assume "unlock_next n s = Threw e s'"
  then have "s' = s" using unlock_next_Threw by blast
  then show ?thesis by (simp add: same_session_def)
next
  assume "unlock_next n s = Returned s'"
  from unlock_next_Returned [OF this] show ?thesis
  proof (elim disjE exE conjE)
    assume "mission_finish s = Returned s'"
    then show ?thesis by (rule mission_finish_session)
  next
    fix u p
    assume "mission_finish
             (s\<lparr>playerProgress := p,
                debriefMessage := debriefMessage s @ '' A new assignment is now available.''\<rparr>)
           = Returned s'"
    from mission_finish_session [OF this] show ?thesis
      by (simp add: same_session_def)
  qed
qed


lemma endMission_no_level: "currentLevel s = None \<Longrightarrow> endMission s = Threw TypeError s"
  by (simp add: endMission_def)




text \<open>A mission end on a well-formed progress record returns.\<close>

lemma progress_ready_D:
  assumes "progress_ready s lvl"
  obtains kvs us ss n where "playerProgress s = JObj kvs"
    "map_of kvs ''unlocks'' = Some (JArr us)" "map_of kvs ''scores'' = Some (JArr ss)"
    "1 \<le> level_id lvl" "level_id lvl \<le> int (length ss)" "level_id lvl < 4294967295"
    "ss ! nat (level_id lvl - 1) = JNum n"
proof -
  from assms obtain us ss n where
    u: "get_prop (playerProgress s) ''unlocks'' = Inr (JArr us)"
    and sc: "get_prop (playerProgress s) ''scores'' = Inr (JArr ss)"
    and r: "1 \<le> level_id lvl" "level_id lvl \<le> int (length ss)" "level_id lvl < 4294967295"
      "ss ! nat (level_id lvl - 1) = JNum n"
    by (auto simp add: progress_ready_def split: sum.splits jsval.splits)
  from get_prop_arr [OF u] obtain kvs where k: "playerProgress s = JObj kvs"
    "map_of kvs ''unlocks'' = Some (JArr us)" by blast
  with sc have "map_of kvs ''scores'' = Some (JArr ss)" by (auto split: option.splits)
  with k r show ?thesis using that by blast
qed

lemma update_high_score_returns:
  assumes "progress_ready s lvl"
  shows "\<exists>p. update_high_score (level_id lvl - 1) s = Returned (s\<lparr>playerProgress := p\<rparr>)
           \<and> get_prop p ''unlocks'' = get_prop (playerProgress s) ''unlocks''"
proof -
  from assms obtain kvs us ss n where k: "playerProgress s = JObj kvs"
    "map_of kvs ''unlocks'' = Some (JArr us)" "map_of kvs ''scores'' = Some (JArr ss)"
    "1 \<le> level_id lvl" "level_id lvl \<le> int (length ss)" "level_id lvl < 4294967295"
    "ss ! nat (level_id lvl - 1) = JNum n"
    by (rule progress_ready_D)
  show ?thesis
  proof (cases "n < currentScore s")
    case True
    with k have "update_high_score (level_id lvl - 1) s =
      Returned (s\<lparr>playerProgress :=
         JObj (AList.update ''scores'' (JArr (ss[nat (level_id lvl - 1) := JNum (currentScore s)])) kvs)\<rparr>)"
      by (simp add: update_high_score_def read_progress_def write_progress_def)
    moreover have "get_prop (JObj (AList.update ''scores''
          (JArr (ss[nat (level_id lvl - 1) := JNum (currentScore s)])) kvs)) ''unlocks''
        = get_prop (playerProgress s) ''unlocks''"
      using k by (simp add: update_conv')
    ultimately show ?thesis by blast
  next
    case False
    with k have "update_high_score (level_id lvl - 1) s = Returned s"
      by (simp add: update_high_score_def read_progress_def)
    then have "update_high_score (level_id lvl - 1) s
                 = Returned (s\<lparr>playerProgress := playerProgress s\<rparr>)" by simp
    then show ?thesis by blast
  qed
qed

lemma unlock_next_returns:
  assumes "get_prop (playerProgress s) ''unlocks'' = Inr (JArr us)"
    and "0 \<le> n" "n < 4294967295"
  shows "\<exists>s'. unlock_next n s = Returned s'"
proof -
  from get_prop_arr [OF assms(1)] obtain kvs where "playerProgress s = JObj kvs"
    "map_of kvs ''unlocks'' = Some (JArr us)" by blast
  with assms(2,3) show ?thesis
    by (simp add: unlock_next_def read_progress_def write_progress_def mission_finish_def)
qed

lemma endMission_returns:
  assumes lvl: "currentLevel s = Some lvl" and r: "progress_ready s lvl"
  shows "\<exists>s'. endMission s = Returned s'"
proof -
  from update_high_score_returns [OF r] obtain p where
    u: "update_high_score (level_id lvl - 1) s = Returned (s\<lparr>playerProgress := p\<rparr>)"
    and g: "get_prop p ''unlocks'' = get_prop (playerProgress s) ''unlocks''" by blast
  from r obtain kvs us ss n where k: "playerProgress s = JObj kvs"
    "map_of kvs ''unlocks'' = Some (JArr us)"
    "1 \<le> level_id lvl" "level_id lvl < 4294967295"
    by (rule progress_ready_D)
  from k g have "get_prop (playerProgress (show_passed (s\<lparr>playerProgress := p\<rparr>))) ''unlocks''
                  = Inr (JArr us)"
    by (simp add: show_passed_def)
  from unlock_next_returns [OF this, of "level_id lvl"] k
  obtain s1 where "unlock_next (level_id lvl) (show_passed (s\<lparr>playerProgress := p\<rparr>))
                     = Returned s1" by auto
  with lvl u show ?thesis
    by (simp add: endMission_def Let_def mission_finish_def)
qed

text \<open>
  Claim C4. A mission end that returns shows the pass texts exactly when the
  score is at least the level's pass score, and the fail texts otherwise: a
  score equal to the pass score passes, one below it by one fails. On a
  well-formed progress record the mission end does return.
\<close>

theorem pass_iff_threshold:
  assumes lvl: "currentLevel s = Some lvl"
  shows "(progress_ready s lvl \<longrightarrow> (\<exists>s'. endMission s = Returned s'))
       \<and> (\<forall>s'. endMission s = Returned s' \<longrightarrow>
             (debriefClass s' = ''pass'') = (passScore lvl \<le> currentScore s)
           \<and> (debriefClass s' = ''fail'') = (currentScore s < passScore lvl)
           \<and> (debriefTitle s' = ''Mission Successful'') = (passScore lvl \<le> currentScore s)
           \<and> (debriefTitle s' = ''Mission Failed'') = (currentScore s < passScore lvl)
           \<and> (currentScore s = passScore lvl \<longrightarrow> debriefClass s' = ''pass'')
           \<and> (currentScore s = passScore lvl - 1 \<longrightarrow> debriefClass s' = ''fail''))"
proof (rule conjI)
  show "progress_ready s lvl \<longrightarrow> (\<exists>s'. endMission s = Returned s')"
    using lvl by (simp add: endMission_returns)
next
  show "\<forall>s'. endMission s = Returned s' \<longrightarrow>
             (debriefClass s' = ''pass'') = (passScore lvl \<le> currentScore s)
           \<and> (debriefClass s' = ''fail'') = (currentScore s < passScore lvl)
           \<and> (debriefTitle s' = ''Mission Successful'') = (passScore lvl \<le> currentScore s)
           \<and> (debriefTitle s' = ''Mission Failed'') = (currentScore s < passScore lvl)
           \<and> (currentScore s = passScore lvl \<longrightarrow> debriefClass s' = ''pass'')
           \<and> (currentScore s = passScore lvl - 1 \<longrightarrow> debriefClass s' = ''fail'')"
  proof (rule allI, rule impI)
  fix s'
  assume ret: "endMission s = Returned s'"
  from ret have o: "endMission s = Returned s' \<or> endMission s = Threw TypeError s'" by simp
  from endMission_split [OF lvl o] ret
  consider (passed) s1 where "passScore lvl \<le> currentScore s"
      "unlock_next (level_id lvl) (show_passed s1) = Returned s'"
    | (failed) s1 where "currentScore s < passScore lvl"
      "mission_finish (show_failed s1) = Returned s'"
    by auto
  then show "(debriefClass s' = ''pass'') = (passScore lvl \<le> currentScore s)
           \<and> (debriefClass s' = ''fail'') = (currentScore s < passScore lvl)
           \<and> (debriefTitle s' = ''Mission Successful'') = (passScore lvl \<le> currentScore s)
           \<and> (debriefTitle s' = ''Mission Failed'') = (currentScore s < passScore lvl)
           \<and> (currentScore s = passScore lvl \<longrightarrow> debriefClass s' = ''pass'')
           \<and> (currentScore s = passScore lvl - 1 \<longrightarrow> debriefClass s' = ''fail'')"
  proof cases
    case passed
    from unlock_next_frame [of "level_id lvl" "show_passed s1" s'] passed(2)
    have "debriefTitle s' = ''Mission Successful''" "debriefClass s' = ''pass''"
      by (simp_all add: show_passed_def)
    with passed(1) show ?thesis by simp
  next
    case failed
    from mission_finish_frame [OF failed(2)]
    have "debriefTitle s' = ''Mission Failed''" "debriefClass s' = ''fail''"
      by (simp_all add: show_failed_def)
    with failed(1) show ?thesis by simp
  qed
  qed
qed

theorem pass_iff_threshold_witness:
  "progress_ready (sample_game 10 3) sample_level1
   \<and> (\<exists>s'. endMission (sample_game 10 3) = Returned s' \<and> debriefClass s' = ''pass''
         \<and> debriefTitle s' = ''Mission Successful'')
   \<and> progress_ready (sample_game 9 3) sample_level1
   \<and> (\<exists>s'. endMission (sample_game 9 3) = Returned s' \<and> debriefClass s' = ''fail''
         \<and> debriefTitle s' = ''Mission Failed'')"
proof -
  have l: "currentLevel (sample_game 10 3) = Some sample_level1"
    "currentLevel (sample_game 9 3) = Some sample_level1"
    by (simp_all add: sample_game_def)
  have r: "progress_ready (sample_game 10 3) sample_level1"
    "progress_ready (sample_game 9 3) sample_level1"
    by (simp_all add: progress_ready_def sample_defs)
  from pass_iff_threshold [OF l(1)] r(1)
  obtain a where a: "endMission (sample_game 10 3) = Returned a" by blast
  from pass_iff_threshold [OF l(2)] r(2)
  obtain b where b: "endMission (sample_game 9 3) = Returned b" by blast
  from pass_iff_threshold [OF l(1)] a
  have "debriefClass a = ''pass'' \<and> debriefTitle a = ''Mission Successful''"
    by (simp add: sample_game_def sample_level1_def)
  moreover from pass_iff_threshold [OF l(2)] b
  have "debriefClass b = ''fail'' \<and> debriefTitle b = ''Mission Failed''"
    by (simp add: sample_game_def sample_level1_def)
  ultimately show ?thesis using a b r by blast
qed

section \<open>High scores and unlock flags\<close>

lemma ends_cases: "ends out s' \<Longrightarrow> out = Returned s' \<or> (\<exists>e. out = Threw e s')"
  by (simp add: ends_def)

lemma read_num_is_array:
  "read_progress p f i = Ok (JNum old) \<Longrightarrow>
     \<exists>xs. get_prop p f = Inr (JArr xs) \<and> 0 \<le> i \<and> i < int (length xs)"
proof -
  assume h: "read_progress p f i = Ok (JNum old)"
  then obtain a where a: "get_prop p f = Inr a" and g: "get_index a i = Ok (JNum old)"
    by (auto simp add: read_progress_def split: sum.splits)
  from g show ?thesis using a by (cases a) (auto split: if_splits)
qed

lemma write_num_no_throw:
  "read_progress p f i = Ok (JNum old) \<Longrightarrow> write_progress p f i x \<noteq> Throw e"
  by (auto dest!: read_num_is_array simp add: write_progress_def split: if_splits)

lemma update_high_score_num:
  assumes r: "read_progress (playerProgress s) ''scores'' i = Ok (JNum old)"
    and o: "update_high_score i s = Returned s1 \<or> update_high_score i s = Threw e s1"
  shows "read_progress (playerProgress s1) ''scores'' j =
           (if j = i \<and> old < currentScore s then Ok (JNum (currentScore s))
            else read_progress (playerProgress s) ''scores'' j)"
  using o
proof
  assume "update_high_score i s = Threw e s1"
  then have False using r
    by (auto simp add: update_high_score_def write_num_no_throw split: res.splits bool.splits)
  then show ?thesis ..
next
  assume "update_high_score i s = Returned s1"
  from update_high_score_Returned [OF this] r
  have "(\<not> old < currentScore s \<and> s1 = s) \<or>
        (old < currentScore s \<and>
         (\<exists>p. write_progress (playerProgress s) ''scores'' i (JNum (currentScore s)) = Ok p
              \<and> s1 = s\<lparr>playerProgress := p\<rparr>))"
    by auto
  then show ?thesis
  proof (elim disjE exE conjE)
    assume "\<not> old < currentScore s" "s1 = s"
    then show ?thesis by simp
  next
    fix p
    assume lt: "old < currentScore s"
      and w: "write_progress (playerProgress s) ''scores'' i (JNum (currentScore s)) = Ok p"
      and s1: "s1 = s\<lparr>playerProgress := p\<rparr>"
    from read_after_write_same [OF w, of j] lt s1 show ?thesis by simp
  qed
qed

lemma update_high_score_other:
  assumes o: "update_high_score i s = Returned s1 \<or> update_high_score i s = Threw e s1"
    and ne: "g \<noteq> ''scores''"
  shows "read_progress (playerProgress s1) g j = read_progress (playerProgress s) g j"
  using o
proof
  assume "update_high_score i s = Threw e s1"
  then have "s1 = s" using update_high_score_Threw by blast
  then show ?thesis by simp
next
  assume "update_high_score i s = Returned s1"
  from update_high_score_Returned [OF this]
  have "s1 = s \<or>
        (\<exists>p. write_progress (playerProgress s) ''scores'' i (JNum (currentScore s)) = Ok p
              \<and> s1 = s\<lparr>playerProgress := p\<rparr>)"
    by blast
  then show ?thesis
    using ne by (auto simp add: read_after_write_other)
qed

text \<open>How the progress record changes in the pass branch.\<close>

lemma unlock_next_progress:
  assumes "unlock_next n s = Returned s' \<or> unlock_next n s = Threw e s'"
  shows "playerProgress s' = playerProgress s \<or>
         (\<exists>u. read_progress (playerProgress s) ''unlocks'' n = Ok u \<and> \<not> truthy u
             \<and> write_progress (playerProgress s) ''unlocks'' n (JBool True)
                 = Ok (playerProgress s'))"
  using assms
proof
  assume "unlock_next n s = Threw e s'"
  then have "s' = s" using unlock_next_Threw by blast
  then show ?thesis by simp
next
  assume "unlock_next n s = Returned s'"
  from unlock_next_Returned [OF this] show ?thesis
  proof (elim disjE exE conjE)
    assume "mission_finish s = Returned s'"
    from mission_finish_frame [OF this] show ?thesis by simp
  next
    fix u p
    assume u: "read_progress (playerProgress s) ''unlocks'' n = Ok u" "\<not> truthy u"
      and w: "write_progress (playerProgress s) ''unlocks'' n (JBool True) = Ok p"
      and m: "mission_finish
             (s\<lparr>playerProgress := p,
                debriefMessage := debriefMessage s @ '' A new assignment is now available.''\<rparr>)
           = Returned s'"
    from mission_finish_frame [OF m] have "playerProgress s' = p" by simp
    with u w show ?thesis by auto
  qed
qed

lemma endMission_progress:
  assumes lvl: "currentLevel s = Some lvl"
    and o: "endMission s = Returned s' \<or> endMission s = Threw e s'"
  shows "\<exists>s1. (update_high_score (level_id lvl - 1) s = Returned s1
               \<or> update_high_score (level_id lvl - 1) s = Threw e s1)
           \<and> (playerProgress s' = playerProgress s1 \<or>
                (\<exists>u. read_progress (playerProgress s1) ''unlocks'' (level_id lvl) = Ok u
                    \<and> \<not> truthy u
                    \<and> write_progress (playerProgress s1) ''unlocks'' (level_id lvl) (JBool True)
                         = Ok (playerProgress s')))"
  using endMission_split [OF lvl o]
proof (elim disjE exE conjE)
  assume "update_high_score (level_id lvl - 1) s = Threw e s'"
  then show ?thesis by blast
next
  fix s1
  assume u: "update_high_score (level_id lvl - 1) s = Returned s1"
    and n: "unlock_next (level_id lvl) (show_passed s1) = endMission s"
  from n o have "unlock_next (level_id lvl) (show_passed s1) = Returned s'
               \<or> unlock_next (level_id lvl) (show_passed s1) = Threw e s'" by simp
  from unlock_next_progress [OF this] u show ?thesis
    by (auto simp add: show_passed_def)
next
  fix s1
  assume u: "update_high_score (level_id lvl - 1) s = Returned s1"
    and n: "mission_finish (show_failed s1) = endMission s"
  from n o have "mission_finish (show_failed s1) = Returned s'"
    by (auto simp add: mission_finish_not_Threw)
  from mission_finish_frame [OF this] have "playerProgress s' = playerProgress s1"
    by (simp add: show_failed_def)
  with u show ?thesis by blast
qed

text \<open>
  Claim C5. When \<^verbatim>\<open>playerProgress.scores[levelIndex]\<close> holds a number, a mission
  end leaves it as it is if the final score is not greater, and replaces it by
  the final score if it is greater; no other entry of the scores changes. This
  holds whether the mission end returns or throws later on, and on a
  well-formed progress record it returns.
\<close>

theorem high_score_strictly_greater:
  assumes lvl: "currentLevel s = Some lvl"
    and r: "read_progress (playerProgress s) ''scores'' (level_id lvl - 1) = Ok (JNum old)"
  shows "(progress_ready s lvl \<longrightarrow> (\<exists>s'. endMission s = Returned s'))
    \<and> (\<forall>s'. ends (endMission s) s' \<longrightarrow>
       (currentScore s \<le> old \<longrightarrow>
            read_progress (playerProgress s') ''scores'' (level_id lvl - 1) = Ok (JNum old))
       \<and> (old < currentScore s \<longrightarrow>
            read_progress (playerProgress s') ''scores'' (level_id lvl - 1)
              = Ok (JNum (currentScore s)))
       \<and> (\<forall>j. j \<noteq> level_id lvl - 1 \<longrightarrow>
            read_progress (playerProgress s') ''scores'' j
              = read_progress (playerProgress s) ''scores'' j))"
proof (rule conjI)
  show "progress_ready s lvl \<longrightarrow> (\<exists>s'. endMission s = Returned s')"
    using lvl by (simp add: endMission_returns)
next
  show "\<forall>s'. ends (endMission s) s' \<longrightarrow>
       (currentScore s \<le> old \<longrightarrow>
            read_progress (playerProgress s') ''scores'' (level_id lvl - 1) = Ok (JNum old))
       \<and> (old < currentScore s \<longrightarrow>
            read_progress (playerProgress s') ''scores'' (level_id lvl - 1)
              = Ok (JNum (currentScore s)))
       \<and> (\<forall>j. j \<noteq> level_id lvl - 1 \<longrightarrow>
            read_progress (playerProgress s') ''scores'' j
              = read_progress (playerProgress s) ''scores'' j)"
  proof (rule allI, rule impI)
  fix s'
  assume o: "ends (endMission s) s'"
  from o obtain e where o': "endMission s = Returned s' \<or> endMission s = Threw e s'"
    by (auto simp add: ends_def)
  from endMission_progress [OF lvl o'] obtain s1 where
    u: "update_high_score (level_id lvl - 1) s = Returned s1
        \<or> update_high_score (level_id lvl - 1) s = Threw e s1"
    and p: "playerProgress s' = playerProgress s1 \<or>
            (\<exists>u. read_progress (playerProgress s1) ''unlocks'' (level_id lvl) = Ok u
                \<and> \<not> truthy u
                \<and> write_progress (playerProgress s1) ''unlocks'' (level_id lvl) (JBool True)
                     = Ok (playerProgress s'))"
    by blast
  have same: "read_progress (playerProgress s') ''scores'' j
                = read_progress (playerProgress s1) ''scores'' j" for j
    using p by (auto simp add: read_after_write_other)
  have "read_progress (playerProgress s') ''scores'' j =
           (if j = level_id lvl - 1 \<and> old < currentScore s then Ok (JNum (currentScore s))
            else read_progress (playerProgress s) ''scores'' j)" for j
    using same [of j] update_high_score_num [OF r u, of j] by simp
  then show "(currentScore s \<le> old \<longrightarrow>
            read_progress (playerProgress s') ''scores'' (level_id lvl - 1) = Ok (JNum old))
       \<and> (old < currentScore s \<longrightarrow>
            read_progress (playerProgress s') ''scores'' (level_id lvl - 1)
              = Ok (JNum (currentScore s)))
       \<and> (\<forall>j. j \<noteq> level_id lvl - 1 \<longrightarrow>
            read_progress (playerProgress s') ''scores'' j
              = read_progress (playerProgress s) ''scores'' j)"
    using r by simp
  qed
qed

theorem high_score_strictly_greater_witness:
  "(\<exists>s'. ends (endMission (sample_game 12 3)) s'
         \<and> read_progress (playerProgress (sample_game 12 3)) ''scores'' 0 = Ok (JNum 0)
         \<and> read_progress (playerProgress s') ''scores'' 0 = Ok (JNum 12))
   \<and> (\<exists>s'. ends (endMission ((sample_game 12 3)\<lparr>playerProgress := high_record\<rparr>)) s'
         \<and> read_progress (playerProgress s') ''scores'' 0 = Ok (JNum 15))"
proof -
  let ?s = "sample_game 12 3" and ?h = "(sample_game 12 3)\<lparr>playerProgress := high_record\<rparr>"
  have l: "currentLevel ?s = Some sample_level1" "currentLevel ?h = Some sample_level1"
    by (simp_all add: sample_game_def)
  have r: "read_progress (playerProgress ?s) ''scores'' (level_id sample_level1 - 1) = Ok (JNum 0)"
    "read_progress (playerProgress ?h) ''scores'' (level_id sample_level1 - 1) = Ok (JNum 15)"
    by (simp_all add: sample_defs read_progress_def)
  have w: "progress_ready ?s sample_level1" "progress_ready ?h sample_level1"
    by (simp_all add: progress_ready_def sample_defs)
  from high_score_strictly_greater [OF l(1) r(1)] w(1)
  obtain a where a: "ends (endMission ?s) a" by (auto simp add: ends_def)
  from high_score_strictly_greater [OF l(2) r(2)] w(2)
  obtain b where b: "ends (endMission ?h) b" by (auto simp add: ends_def)
  from high_score_strictly_greater [OF l(1) r(1)] a
  have "read_progress (playerProgress a) ''scores'' 0 = Ok (JNum 12)"
    by (simp add: sample_game_def sample_level1_def)
  moreover from high_score_strictly_greater [OF l(2) r(2)] b
  have "read_progress (playerProgress b) ''scores'' 0 = Ok (JNum 15)"
    by (simp add: sample_game_def sample_level1_def)
  ultimately show ?thesis using a b r by (auto simp add: sample_level1_def)
qed

lemma endMission_unlocks:
  assumes o: "ends (endMission s) s'"
  shows "read_progress (playerProgress s') ''unlocks'' j
           = read_progress (playerProgress s) ''unlocks'' j
       \<or> (read_progress (playerProgress s') ''unlocks'' j = Ok (JBool True)
           \<and> (\<exists>u. read_progress (playerProgress s) ''unlocks'' j = Ok u \<and> \<not> truthy u))"
proof (cases "currentLevel s")
  case None
  with o have "s' = s" by (auto simp add: ends_def endMission_no_level)
  then show ?thesis by simp
next
  case (Some lvl)
  from o obtain e where o': "endMission s = Returned s' \<or> endMission s = Threw e s'"
    by (auto simp add: ends_def)
  from endMission_progress [OF Some o'] obtain s1 where
    u: "update_high_score (level_id lvl - 1) s = Returned s1
        \<or> update_high_score (level_id lvl - 1) s = Threw e s1"
    and p: "playerProgress s' = playerProgress s1 \<or>
            (\<exists>u. read_progress (playerProgress s1) ''unlocks'' (level_id lvl) = Ok u
                \<and> \<not> truthy u
                \<and> write_progress (playerProgress s1) ''unlocks'' (level_id lvl) (JBool True)
                     = Ok (playerProgress s'))"
    by blast
  have s1: "read_progress (playerProgress s1) ''unlocks'' k
              = read_progress (playerProgress s) ''unlocks'' k" for k
    using update_high_score_other [OF u, of "''unlocks''" k] by simp
  from p show ?thesis
  proof (elim disjE exE conjE)
    assume "playerProgress s' = playerProgress s1"
    then show ?thesis using s1 [of j] by simp
  next
    fix u
    assume r: "read_progress (playerProgress s1) ''unlocks'' (level_id lvl) = Ok u"
      and f: "\<not> truthy u"
      and w: "write_progress (playerProgress s1) ''unlocks'' (level_id lvl) (JBool True)
                = Ok (playerProgress s')"
    show ?thesis
    proof (cases "j = level_id lvl")
      case True
      with read_after_write_same [OF w, of j] r f s1 [of j] show ?thesis by auto
    next
      case False
      with read_after_write_same [OF w, of j] s1 [of j] show ?thesis by simp
    qed
  qed
qed

lemma use_reply_cases:
  assumes "use_reply v s = Some t"
  shows "t = chat_catch null_reply_message s
       \<or> (\<exists>text. t = chat_catch null_reply_message (addMessageToLog FromAi text s))
       \<or> (\<exists>text n. t = (updateScore n (addMessageToLog FromAi text s))
                         \<lparr>chatHistory :=
                            chatHistory (updateScore n (addMessageToLog FromAi text s))
                            @ [ModelTurn v]\<rparr>)"
proof (cases "get_prop v ''response''")
  case (Inl e)
  with assms show ?thesis by (simp add: use_reply_def)
next
  case (Inr r)
  show ?thesis
  proof (cases r)
    case (JStr body)
    show ?thesis
    proof (cases "get_prop v ''score_change''")
      case (Inl e)
      with assms Inr JStr show ?thesis by (simp add: use_reply_def) blast
    next
      case change: (Inr c)
      show ?thesis
      proof (cases "increment c")
        case None
        with assms Inr JStr change show ?thesis by (simp add: use_reply_def)
      next
        case (Some n)
        with assms Inr JStr change show ?thesis by (simp add: use_reply_def Let_def) blast
      qed
    qed
  qed (use assms Inr in \<open>simp_all add: use_reply_def\<close>)
qed

lemma use_reply_kept:
  assumes "use_reply v s = Some t"
  shows "playerProgress t = playerProgress s \<and> messageCount t = messageCount s
     \<and> currentLevel t = currentLevel s \<and> levelsData t = levelsData s
     \<and> active t = active s \<and> chatInputValue t = chatInputValue s"
  using use_reply_cases [OF assms]
  by (elim disjE exE) (simp_all add: chat_catch_def addMessageToLog_def updateScore_def)

lemma chat_try_cases:
  assumes "chat_try fetch m s = Some t"
  shows "(\<exists>msg. t = chat_catch msg s)
       \<or> (\<exists>v. use_reply v (s\<lparr>chatHistory := chatHistory s @ [UserTurn m]\<rparr>) = Some t)"
proof (cases "currentLevel s")
  case None
  with assms show ?thesis by (simp add: chat_try_def) blast
next
  case (Some lvl)
  show ?thesis
  proof (cases "fetch \<lparr>req_systemPrompt = systemPrompt lvl, req_history = chatHistory s,
                         req_userMessage = m\<rparr>")
    case (FetchFailed x)
    with assms Some show ?thesis by (simp add: chat_try_def) blast
  next
    case (HttpError x)
    with assms Some show ?thesis by (simp add: chat_try_def) blast
  next
    case (HttpOk v)
    with assms Some show ?thesis by (simp add: chat_try_def) blast
  qed
qed

lemma chat_try_kept:
  assumes "chat_try fetch m s = Some t"
  shows "playerProgress t = playerProgress s \<and> messageCount t = messageCount s
     \<and> currentLevel t = currentLevel s \<and> levelsData t = levelsData s
     \<and> active t = active s \<and> chatInputValue t = chatInputValue s"
  using chat_try_cases [OF assms]
proof (elim disjE exE)
  fix msg
  assume "t = chat_catch msg s"
  then show ?thesis by (simp add: chat_catch_def addMessageToLog_def)
next
  fix v
  assume "use_reply v (s\<lparr>chatHistory := chatHistory s @ [UserTurn m]\<rparr>) = Some t"
  from use_reply_kept [OF this] show ?thesis by simp
qed

lemma turn_attempt_cases:
  assumes "turn_attempt fetch m s = Some t"
  shows "\<exists>t'. chat_try fetch m
           ((updateMessageCount (messageCount s + 1)
              ((addMessageToLog FromUser m s)\<lparr>chatInputValue := []\<rparr>))
            \<lparr>chatInputDisabled := True, sendButtonDisabled := True, spinnerHidden := False\<rparr>)
           = Some t'
         \<and> t = t'\<lparr>chatInputDisabled := False, sendButtonDisabled := False,
                   spinnerHidden := True\<rparr>"
  using assms
  by (simp add: turn_attempt_def Let_def addMessageToLog_def split: option.splits)

lemma turn_attempt_kept:
  assumes "turn_attempt fetch m s = Some t"
  shows "playerProgress t = playerProgress s \<and> messageCount t = messageCount s + 1
     \<and> currentLevel t = currentLevel s \<and> levelsData t = levelsData s
     \<and> active t = active s
     \<and> \<not> chatInputDisabled t \<and> \<not> sendButtonDisabled t \<and> spinnerHidden t"
proof -
  from turn_attempt_cases [OF assms] obtain t' where
    c: "chat_try fetch m
           ((updateMessageCount (messageCount s + 1)
              ((addMessageToLog FromUser m s)\<lparr>chatInputValue := []\<rparr>))
            \<lparr>chatInputDisabled := True, sendButtonDisabled := True, spinnerHidden := False\<rparr>)
           = Some t'"
    and t: "t = t'\<lparr>chatInputDisabled := False, sendButtonDisabled := False,
                   spinnerHidden := True\<rparr>"
    by blast
  from chat_try_kept [OF c] t show ?thesis
    by (simp add: updateMessageCount_def addMessageToLog_def)
qed

lemma turn_attempt_progress:
  "turn_attempt fetch m s = Some t \<Longrightarrow> playerProgress t = playerProgress s"
  by (simp add: turn_attempt_kept)

lemma startLevel_progress: "playerProgress (startLevel i s) = playerProgress s"
  by (simp add: startLevel_def Let_def showScreen_def addMessageToLog_def
      updateMessageCount_def updateScore_def split: option.splits)

lemma handleChatSubmit_unlocks:
  assumes o: "ends (handleChatSubmit fetch s) s'"
  shows "read_progress (playerProgress s') ''unlocks'' j
           = read_progress (playerProgress s) ''unlocks'' j
       \<or> (read_progress (playerProgress s') ''unlocks'' j = Ok (JBool True)
           \<and> (\<exists>u. read_progress (playerProgress s) ''unlocks'' j = Ok u \<and> \<not> truthy u))"
proof -
  from o have "s' = s \<or>
      (\<exists>t. turn_attempt fetch (trim (chatInputValue s)) s = Some t
            \<and> (s' = t \<or> ends (endMission t) s'))"
    by (auto simp add: handleChatSubmit_def Let_def ends_def split: if_splits option.splits)
  then show ?thesis
  proof (elim disjE exE conjE)
    assume "s' = s"
    then show ?thesis by simp
  next
    fix t
    assume "turn_attempt fetch (trim (chatInputValue s)) s = Some t" "s' = t"
    then show ?thesis by (simp add: turn_attempt_progress)
  next
    fix t
    assume t: "turn_attempt fetch (trim (chatInputValue s)) s = Some t"
      and e: "ends (endMission t) s'"
    from endMission_unlocks [OF e, of j] turn_attempt_progress [OF t] show ?thesis by simp
  qed
qed

text \<open>
  Claim C8, as stated, fails for \<^verbatim>\<open>loadProgress\<close>: in the starting state the
  first flag is \<^verbatim>\<open>true\<close>, and loading a stored record whose first flag is
  \<^verbatim>\<open>false\<close> makes it \<^verbatim>\<open>false\<close>.
\<close>

theorem unlock_monotone_counterexample:
  "unlocked (initial_state (Parses locked_record)) 0
   \<and> perform Load (initial_state (Parses locked_record))
       = Returned ((initial_state (Parses locked_record))\<lparr>playerProgress := locked_record\<rparr>)
   \<and> \<not> unlocked ((initial_state (Parses locked_record))\<lparr>playerProgress := locked_record\<rparr>) 0"
  by (simp add: unlocked_def loadProgress_def sample_defs read_progress_def)

text \<open>
  Claim C8, amended. A flag \<^verbatim>\<open>playerProgress.unlocks[i]\<close> that is \<^verbatim>\<open>true\<close> is
  still \<^verbatim>\<open>true\<close> after starting a level, a submitted turn, a mission end, a
  save, and a load that finds no record that parses. A mission end changes the
  reading of a flag only from a falsy value to \<^verbatim>\<open>true\<close>.
\<close>

theorem unlock_monotone:
  "(unlocked st i \<and> (oper = Load \<longrightarrow> (\<forall>v. storage st \<noteq> Parses v)) \<and> ends (perform oper st) st'
      \<longrightarrow> unlocked st' i)
   \<and> (ends (endMission st) st'
       \<and> read_progress (playerProgress st') ''unlocks'' i
           \<noteq> read_progress (playerProgress st) ''unlocks'' i
      \<longrightarrow> read_progress (playerProgress st') ''unlocks'' i = Ok (JBool True)
          \<and> (\<exists>u. read_progress (playerProgress st) ''unlocks'' i = Ok u \<and> \<not> truthy u))"
proof (intro conjI impI)
  assume a: "unlocked st i \<and> (oper = Load \<longrightarrow> (\<forall>v. storage st \<noteq> Parses v))
             \<and> ends (perform oper st) st'"
  then have un: "read_progress (playerProgress st) ''unlocks'' i = Ok (JBool True)"
    and e: "ends (perform oper st) st'"
    by (simp_all add: unlocked_def)
  show "unlocked st' i"
  proof (cases oper)
    case (StartLevel x)
    with e have "st' = startLevel x st" by (simp add: ends_def)
    then show ?thesis using un by (simp add: unlocked_def startLevel_progress)
  next
    case (SubmitTurn msg fetch)
    with e have "ends (handleChatSubmit fetch (st\<lparr>chatInputValue := msg\<rparr>)) st'" by simp
    from handleChatSubmit_unlocks [OF this, of i] un show ?thesis
      by (auto simp add: unlocked_def)
  next
    case MissionResolution
    with e have "ends (endMission st) st'" by simp
    from endMission_unlocks [OF this, of i] un show ?thesis
      by (auto simp add: unlocked_def)
  next
    case Save
    with e have "st' = saveProgress st" by (simp add: ends_def)
    then show ?thesis using un by (simp add: unlocked_def saveProgress_def)
  next
    case Load
    with a have "\<forall>v. storage st \<noteq> Parses v" by simp
    with e Load have "playerProgress st' = playerProgress st"
      by (cases "storage st") (auto simp add: ends_def loadProgress_def saveProgress_def)
    then show ?thesis using un by (simp add: unlocked_def)
  qed
next
  assume "ends (endMission st) st'
       \<and> read_progress (playerProgress st') ''unlocks'' i
           \<noteq> read_progress (playerProgress st) ''unlocks'' i"
  then show "read_progress (playerProgress st') ''unlocks'' i = Ok (JBool True)"
    using endMission_unlocks [of st st' i] by blast
next
  assume "ends (endMission st) st'
       \<and> read_progress (playerProgress st') ''unlocks'' i
           \<noteq> read_progress (playerProgress st) ''unlocks'' i"
  then show "\<exists>u. read_progress (playerProgress st) ''unlocks'' i = Ok u \<and> \<not> truthy u"
    using endMission_unlocks [of st st' i] by blast
qed

theorem unlock_monotone_witness:
  "unlocked (sample_game 10 3) 0 \<and> \<not> unlocked (sample_game 10 3) 1
   \<and> (\<exists>s'. perform MissionResolution (sample_game 10 3) = Returned s'
          \<and> unlocked s' 0 \<and> unlocked s' 1)"
proof -
  let ?s = "sample_game 10 3"
  have u: "unlocked ?s 0" "read_progress (playerProgress ?s) ''unlocks'' 1 = Ok (JBool False)"
    by (simp_all add: unlocked_def sample_defs read_progress_def)
  obtain a where a: "endMission ?s = Returned a"
    by (simp add: sample_defs run_defs)
  then have e: "ends (perform MissionResolution ?s) a" "ends (endMission ?s) a"
    by (simp_all add: ends_def)
  have n: "read_progress (playerProgress a) ''unlocks'' 1 = Ok (JBool True)"
    using a by (auto simp add: sample_defs run_defs)
  from unlock_monotone [of ?s 0 MissionResolution a] u(1) e(1) have "unlocked a 0" by simp
  moreover from unlock_monotone [of ?s 1 MissionResolution a] e(2) u(2) n
  have "unlocked a 1" by (simp add: unlocked_def)
  ultimately show ?thesis using a u by (auto simp add: unlocked_def)
qed

section \<open>Turns\<close>










text \<open>
  A reply that is \<^verbatim>\<open>null\<close> is caught after the user's entry has been pushed
  (line 198 runs before line 204 throws): the entry stays in the history.
\<close>

lemma null_reply_keeps_user_entry:
  assumes "currentLevel s = Some lvl"
    and "fetch \<lparr>req_systemPrompt = systemPrompt lvl, req_history = chatHistory s,
                req_userMessage = m\<rparr> = HttpOk JNull"
  shows "\<exists>t. turn_attempt fetch m s = Some t
           \<and> chatHistory t = chatHistory s @ [UserTurn m]
           \<and> currentScore t = currentScore s
           \<and> chatLog t = chatLog s @ [(FromUser, m),
               (FromSystem, units ''Error: Could not get response from AI. ''
                            @ null_reply_message)]"
proof -
  let ?s3 = "(updateMessageCount (messageCount s + 1)
               ((addMessageToLog FromUser m s)\<lparr>chatInputValue := []\<rparr>))
             \<lparr>chatInputDisabled := True, sendButtonDisabled := True, spinnerHidden := False\<rparr>"
  have "currentLevel ?s3 = Some lvl" "chatHistory ?s3 = chatHistory s"
    using assms(1) by (simp_all add: updateMessageCount_def addMessageToLog_def)
  with assms(2) have "chat_try fetch m ?s3
       = Some (chat_catch null_reply_message
                 (?s3\<lparr>chatHistory := chatHistory ?s3 @ [UserTurn m]\<rparr>))"
    by (simp add: chat_try_def use_reply_def)
  then show ?thesis
    by (simp add: turn_attempt_def Let_def updateMessageCount_def addMessageToLog_def
        chat_catch_def)
qed

lemma null_reply_sample:
  "\<exists>t. turn_attempt null_fetch (units ''hello'') (sample_game 4 1) = Some t
     \<and> chatHistory t = [UserTurn (units ''hello'')] \<and> currentScore t = 4"
  using null_reply_keeps_user_entry
          [of "sample_game 4 1" sample_level1 null_fetch "units ''hello''"]
  by (auto simp add: sample_game_def initial_state_def null_fetch_def)







section \<open>Starting a level with an unknown id\<close>

lemma startLevel_unknown_id:
  "find (\<lambda>l. level_id l = levelId) (levelsData st) = None \<Longrightarrow>
     startLevel levelId st = st\<lparr>currentLevel := None\<rparr>"
  by (simp add: startLevel_def Let_def)

text \<open>
  Claim C1 at a concrete state: a session on the first level is over, and
  \<^verbatim>\<open>startLevel(99)\<close> is called for an id that the catalogue does not have.
  The assignment of line 137 has run before the guard of line 138 returns, so
  the current level is lost; nothing else of the state changes.
\<close>

theorem startLevel_unknown_id_clears_level:
  "find (\<lambda>l. level_id l = 99) (levelsData (sample_game 12 3)) = None
   \<and> currentLevel (sample_game 12 3) = Some sample_level1
   \<and> currentLevel (startLevel 99 (sample_game 12 3)) = None
   \<and> startLevel 99 (sample_game 12 3) = (sample_game 12 3)\<lparr>currentLevel := None\<rparr>"
  by (simp add: startLevel_def sample_game_def sample_level1_def sample_level2_def Let_def)

section \<open>The relay\<close>

lemma handler_no_key:
  "API_KEY = None \<or> API_KEY = Some [] \<Longrightarrow>
     handler API_KEY model req = (Responded 500 (error_body ''API key not configured.''), [])"
  unfolding handler_def by (simp only: if_True)

lemma handler_405:
  "API_KEY \<noteq> None \<Longrightarrow> API_KEY \<noteq> Some [] \<Longrightarrow> http_method req \<noteq> ''POST'' \<Longrightarrow>
     handler API_KEY model req = (Responded 405 (error_body ''Method Not Allowed''), [])"
  unfolding handler_def by simp

lemma handler_valid:
  assumes "API_KEY \<noteq> None" "API_KEY \<noteq> Some []" "http_method req = ''POST''"
    and "get_prop (http_body req) ''systemPrompt'' = Inr s"
    and "get_prop (http_body req) ''history'' = Inr h"
    and "get_prop (http_body req) ''userMessage'' = Inr u"
  shows "handler API_KEY model req =
     (if \<not> truthy s \<or> \<not> truthy h \<or> \<not> truthy u then
        (Responded 400 (error_body ''Missing required fields.''), [])
      else
        (case spread h of
           Inl e \<Rightarrow> (Crashed e, [])
         | Inr entries \<Rightarrow>
             (case model ([user_entry s, priming_entry] @ entries @ [user_entry u]) of
                CallFails m \<Rightarrow> (Responded 500 (failure_body m),
                                 [[user_entry s, priming_entry] @ entries @ [user_entry u]])
              | ReplyNotJson m \<Rightarrow> (Responded 500 (failure_body m),
                                 [[user_entry s, priming_entry] @ entries @ [user_entry u]])
              | ReplyJson v \<Rightarrow> (Responded 200 v,
                                 [[user_entry s, priming_entry] @ entries @ [user_entry u]]))))"
  using assms
  by (cases API_KEY) (simp_all add: handler_def Let_def split: sum.splits model_result.splits)

lemma handler_no_body:
  assumes "API_KEY \<noteq> None" "API_KEY \<noteq> Some []" "http_method req = ''POST''"
    and "get_prop (http_body req) ''systemPrompt'' = Inl e"
  shows "handler API_KEY model req = (Crashed e, [])"
  unfolding handler_def using assms by simp

lemma get_prop_total: "get_prop b k = Inr v \<Longrightarrow> \<exists>w. get_prop b k' = Inr w"
  by (cases b) auto

lemma handler_calls:
  assumes "snd (handler API_KEY model req) \<noteq> []"
  shows "API_KEY \<noteq> None \<and> API_KEY \<noteq> Some [] \<and> http_method req = ''POST''
       \<and> (\<exists>s h u. get_prop (http_body req) ''systemPrompt'' = Inr s \<and> truthy s
             \<and> get_prop (http_body req) ''history'' = Inr h \<and> truthy h
             \<and> get_prop (http_body req) ''userMessage'' = Inr u \<and> truthy u)"
proof -
  have "\<not> (API_KEY = None \<or> API_KEY = Some [])"
  proof
    assume "API_KEY = None \<or> API_KEY = Some []"
    from handler_no_key [OF this, of model req] assms show False by simp
  qed
  then have k: "API_KEY \<noteq> None" "API_KEY \<noteq> Some []" by simp_all
  have p: "http_method req = ''POST''"
  proof (rule ccontr)
    assume "http_method req \<noteq> ''POST''"
    from handler_405 [OF k this] assms show False by simp
  qed
  obtain s where s: "get_prop (http_body req) ''systemPrompt'' = Inr s"
  proof (cases "get_prop (http_body req) ''systemPrompt''")
    case (Inl e)
    from handler_no_body [OF k p Inl] assms show ?thesis by simp
  next
    case (Inr v)
    then show ?thesis using that by blast
  qed
  obtain h where h: "get_prop (http_body req) ''history'' = Inr h"
    using get_prop_total [OF s] by blast
  obtain u where u: "get_prop (http_body req) ''userMessage'' = Inr u"
    using get_prop_total [OF s] by blast
  from handler_valid [OF k p s h u, of model] assms
  have "truthy s \<and> truthy h \<and> truthy u" by (auto split: if_splits)
  with k p s h u show ?thesis by blast
qed

text \<open>
  Claim C9. The credential check comes first: without a credential (the
  variable unset or empty) every request, whatever its method and body, is
  answered with status 500 and the error text \<^verbatim>\<open>API key not configured.\<close>,
  and the external model is not called.
\<close>

theorem missing_key_500:
  "API_KEY = None \<or> API_KEY = Some [] \<Longrightarrow>
     handler API_KEY model req = (Responded 500 (error_body ''API key not configured.''), [])"
  unfolding handler_def by (simp only: if_True)

theorem missing_key_500_witness:
  "http_method sample_get \<noteq> ''POST''
   \<and> handler None failing_model sample_get
       = (Responded 500 (error_body ''API key not configured.''), [])
   \<and> get_prop (http_body sample_post_blank) ''userMessage'' = Inr JUndefined
   \<and> handler (Some []) failing_model sample_post_blank
       = (Responded 500 (error_body ''API key not configured.''), [])"
  using missing_key_500 [of None failing_model sample_get]
    missing_key_500 [of "Some []" failing_model sample_post_blank]
  by (simp add: sample_get_def sample_post_blank_def)

text \<open>
  Claim C7, as stated, fails: a request that is not a POST is answered with
  status 500, not 405, when no credential is configured.
\<close>

theorem relay_status_counterexample:
  "http_method sample_get \<noteq> ''POST''
   \<and> handler None failing_model sample_get
       = (Responded 500 (error_body ''API key not configured.''), [])
   \<and> handler None failing_model sample_get
       \<noteq> (Responded 405 (error_body ''Method Not Allowed''), [])"
  by (simp add: handler_def sample_get_def)

text \<open>
  Claim C7, amended. Without a credential every request gets status 500. With
  a credential, a request that is not a POST gets status 405; a POST whose
  body has one of \<^verbatim>\<open>systemPrompt\<close>, \<^verbatim>\<open>history\<close>, \<^verbatim>\<open>userMessage\<close> missing or
  falsy gets status 400; and when the call of the external model fails, or its
  reply is not JSON, the answer is status 500 with the message in \<^verbatim>\<open>details\<close>.
  The external model is called only for a POST with a credential and all three
  fields, so in none of the first three cases.
\<close>

theorem relay_validation:
  "(API_KEY = None \<or> API_KEY = Some [] \<longrightarrow>
      handler API_KEY model req = (Responded 500 (error_body ''API key not configured.''), []))
   \<and> (API_KEY \<noteq> None \<and> API_KEY \<noteq> Some [] \<and> http_method req \<noteq> ''POST'' \<longrightarrow>
      handler API_KEY model req = (Responded 405 (error_body ''Method Not Allowed''), []))
   \<and> (API_KEY \<noteq> None \<and> API_KEY \<noteq> Some [] \<and> http_method req = ''POST''
       \<and> get_prop (http_body req) ''systemPrompt'' = Inr s
       \<and> get_prop (http_body req) ''history'' = Inr h
       \<and> get_prop (http_body req) ''userMessage'' = Inr u
       \<and> (\<not> truthy s \<or> \<not> truthy h \<or> \<not> truthy u) \<longrightarrow>
      handler API_KEY model req = (Responded 400 (error_body ''Missing required fields.''), []))
   \<and> (API_KEY \<noteq> None \<and> API_KEY \<noteq> Some [] \<and> http_method req = ''POST''
       \<and> get_prop (http_body req) ''systemPrompt'' = Inr s \<and> truthy s
       \<and> get_prop (http_body req) ''history'' = Inr h \<and> truthy h
       \<and> get_prop (http_body req) ''userMessage'' = Inr u \<and> truthy u
       \<and> spread h = Inr entries
       \<and> (model ([user_entry s, priming_entry] @ entries @ [user_entry u]) = CallFails m
           \<or> model ([user_entry s, priming_entry] @ entries @ [user_entry u]) = ReplyNotJson m)
       \<longrightarrow>
      handler API_KEY model req
        = (Responded 500 (failure_body m),
           [[user_entry s, priming_entry] @ entries @ [user_entry u]]))
   \<and> (snd (handler API_KEY model req) \<noteq> [] \<longrightarrow>
        API_KEY \<noteq> None \<and> API_KEY \<noteq> Some [] \<and> http_method req = ''POST''
        \<and> (\<exists>s h u. get_prop (http_body req) ''systemPrompt'' = Inr s \<and> truthy s
               \<and> get_prop (http_body req) ''history'' = Inr h \<and> truthy h
               \<and> get_prop (http_body req) ''userMessage'' = Inr u \<and> truthy u))"
proof (intro conjI impI)
  assume "API_KEY = None \<or> API_KEY = Some []"
  then show "handler API_KEY model req
               = (Responded 500 (error_body ''API key not configured.''), [])"
    by (rule handler_no_key)
next
  assume "API_KEY \<noteq> None \<and> API_KEY \<noteq> Some [] \<and> http_method req \<noteq> ''POST''"
  then show "handler API_KEY model req = (Responded 405 (error_body ''Method Not Allowed''), [])"
    by (simp add: handler_405)
next
  assume a: "API_KEY \<noteq> None \<and> API_KEY \<noteq> Some [] \<and> http_method req = ''POST''
       \<and> get_prop (http_body req) ''systemPrompt'' = Inr s
       \<and> get_prop (http_body req) ''history'' = Inr h
       \<and> get_prop (http_body req) ''userMessage'' = Inr u
       \<and> (\<not> truthy s \<or> \<not> truthy h \<or> \<not> truthy u)"
  then have "handler API_KEY model req =
     (if \<not> truthy s \<or> \<not> truthy h \<or> \<not> truthy u then
        (Responded 400 (error_body ''Missing required fields.''), [])
      else
        (case spread h of
           Inl e \<Rightarrow> (Crashed e, [])
         | Inr entries \<Rightarrow>
             (case model ([user_entry s, priming_entry] @ entries @ [user_entry u]) of
                CallFails m \<Rightarrow> (Responded 500 (failure_body m),
                                 [[user_entry s, priming_entry] @ entries @ [user_entry u]])
              | ReplyNotJson m \<Rightarrow> (Responded 500 (failure_body m),
                                 [[user_entry s, priming_entry] @ entries @ [user_entry u]])
              | ReplyJson v \<Rightarrow> (Responded 200 v,
                                 [[user_entry s, priming_entry] @ entries @ [user_entry u]]))))"
    by (intro handler_valid) simp_all
  with a show "handler API_KEY model req
                 = (Responded 400 (error_body ''Missing required fields.''), [])"
    by simp
next
  assume a: "API_KEY \<noteq> None \<and> API_KEY \<noteq> Some [] \<and> http_method req = ''POST''
       \<and> get_prop (http_body req) ''systemPrompt'' = Inr s \<and> truthy s
       \<and> get_prop (http_body req) ''history'' = Inr h \<and> truthy h
       \<and> get_prop (http_body req) ''userMessage'' = Inr u \<and> truthy u
       \<and> spread h = Inr entries
       \<and> (model ([user_entry s, priming_entry] @ entries @ [user_entry u]) = CallFails m
           \<or> model ([user_entry s, priming_entry] @ entries @ [user_entry u]) = ReplyNotJson m)"
  then have "handler API_KEY model req =
     (if \<not> truthy s \<or> \<not> truthy h \<or> \<not> truthy u then
        (Responded 400 (error_body ''Missing required fields.''), [])
      else
        (case spread h of
           Inl e \<Rightarrow> (Crashed e, [])
         | Inr entries \<Rightarrow>
             (case model ([user_entry s, priming_entry] @ entries @ [user_entry u]) of
                CallFails m \<Rightarrow> (Responded 500 (failure_body m),
                                 [[user_entry s, priming_entry] @ entries @ [user_entry u]])
              | ReplyNotJson m \<Rightarrow> (Responded 500 (failure_body m),
                                 [[user_entry s, priming_entry] @ entries @ [user_entry u]])
              | ReplyJson v \<Rightarrow> (Responded 200 v,
                                 [[user_entry s, priming_entry] @ entries @ [user_entry u]]))))"
    by (intro handler_valid) simp_all
  with a show "handler API_KEY model req
        = (Responded 500 (failure_body m),
           [[user_entry s, priming_entry] @ entries @ [user_entry u]])"
    by auto
next
  assume "snd (handler API_KEY model req) \<noteq> []"
  from handler_calls [OF this] show "API_KEY \<noteq> None" "API_KEY \<noteq> Some []"
    "http_method req = ''POST''"
    "\<exists>s h u. get_prop (http_body req) ''systemPrompt'' = Inr s \<and> truthy s
               \<and> get_prop (http_body req) ''history'' = Inr h \<and> truthy h
               \<and> get_prop (http_body req) ''userMessage'' = Inr u \<and> truthy u"
    by simp_all
qed

theorem relay_validation_witness:
  "handler None failing_model sample_post
     = (Responded 500 (error_body ''API key not configured.''), [])
   \<and> handler (Some ''secret'') failing_model sample_get
     = (Responded 405 (error_body ''Method Not Allowed''), [])
   \<and> handler (Some ''secret'') failing_model sample_post_blank
     = (Responded 400 (error_body ''Missing required fields.''), [])
   \<and> handler (Some ''secret'') failing_model sample_post
     = (Responded 500 (failure_body ''quota exceeded''),
        [[user_entry (JStr ''You are an informant.''), priming_entry,
          user_entry (JStr ''hello'')]])
   \<and> snd (handler (Some ''secret'') failing_model sample_post) \<noteq> []"
proof -
  have a: "handler None failing_model sample_post
     = (Responded 500 (error_body ''API key not configured.''), [])"
    using relay_validation [of None failing_model sample_post] by simp
  have b: "handler (Some ''secret'') failing_model sample_get
     = (Responded 405 (error_body ''Method Not Allowed''), [])"
    using relay_validation [of "Some ''secret''" failing_model sample_get]
    by (simp add: sample_get_def)
  have c: "handler (Some ''secret'') failing_model sample_post_blank
     = (Responded 400 (error_body ''Missing required fields.''), [])"
    using relay_validation [of "Some ''secret''" failing_model sample_post_blank
        "JStr ''You are an informant.''" "JArr []" JUndefined]
    by (simp add: sample_post_blank_def)
  have d: "handler (Some ''secret'') failing_model sample_post
     = (Responded 500 (failure_body ''quota exceeded''),
        [[user_entry (JStr ''You are an informant.''), priming_entry,
          user_entry (JStr ''hello'')]])"
    using relay_validation [of "Some ''secret''" failing_model sample_post
        "JStr ''You are an informant.''" "JArr []" "JStr ''hello''" "[]" "''quota exceeded''"]
    by (simp add: sample_post_def failing_model_def)
  from a b c d show ?thesis by simp
qed

end
